theory Spec2Isabelle
  imports Main "HOL-Library.Sublist"
begin

section \<open>Python values used by the exporter\<close>

text \<open>
  The module \<^verbatim>\<open>lamba_function.py\<close> signs in to a REST API, pages through the users of a
  site and writes them as CSV. Python \<^verbatim>\<open>str\<close> is modelled as \<^typ>\<open>string\<close>, one
  \<^typ>\<open>char\<close> per code point (code points below 256); UTF-8 decoding of a body
  with \<^verbatim>\<open>errors="replace"\<close> never raises, so a body is given by its decoded text.
\<close>

text \<open>A Python float: a finite dyadic \<open>m * 2 ^ e\<close>, an infinity or a NaN.\<close>

datatype pyfloat = Finite int int | PosInf | NegInf | NaN

text \<open>
  What \<^verbatim>\<open>json.loads\<close> returns. A \<^verbatim>\<open>dict\<close> is an association list in insertion order
  (keys distinct); \<open>map_of\<close> is the lookup. The attribute dictionary of a markup element
  (\<^verbatim>\<open>u.attrib\<close>, strings to strings) is the \<open>JObj\<close> of its \<open>JStr\<close> values.
\<close>

datatype json =
    JNull
  | JBool bool
  | JInt int
  | JFloat pyfloat
  | JStr string
  | JArr "json list"
  | JObj "(string \<times> json) list"

text \<open>What \<^verbatim>\<open>ET.fromstring\<close> returns: an element with its qualified tag \<^verbatim>\<open>{namespace}local\<close>.\<close>

datatype xml = Element (tag: string) (attrib: "(string \<times> string) list") (children: "xml list")

text \<open>The exceptions the module can raise or let through.\<close>

datatype exn =
    KeyError string
  | AttributeError
  | TypeError
  | ValueError
  | OverflowError
  | RuntimeError string
  | ConnectionFailure string
  | LibraryError string

subsection \<open>Strings\<close>

definition digits10 :: string where
  "digits10 = ''0123456789''"

fun str_nat :: "nat \<Rightarrow> string" where
  "str_nat n = (if n < 10 then [digits10 ! n] else str_nat (n div 10) @ [digits10 ! (n mod 10)])"

declare str_nat.simps [simp del]

text \<open>\<^verbatim>\<open>str(i)\<close> of an integer, as an f-string renders it.\<close>

definition str_int :: "int \<Rightarrow> string" where
  "str_int i = (if i < 0 then CHR ''-'' # str_nat (nat (- i)) else str_nat (nat i))"

text \<open>\<^verbatim>\<open>str.lower\<close> on code points below 256.\<close>

definition upper_chars :: string where
  "upper_chars =
     ''ABCDEFGHIJKLMNOPQRSTUVWXYZ'' @
       [CHR 0xC0, CHR 0xC1, CHR 0xC2, CHR 0xC3, CHR 0xC4, CHR 0xC5, CHR 0xC6, CHR 0xC7,
        CHR 0xC8, CHR 0xC9, CHR 0xCA, CHR 0xCB, CHR 0xCC, CHR 0xCD, CHR 0xCE, CHR 0xCF,
        CHR 0xD0, CHR 0xD1, CHR 0xD2, CHR 0xD3, CHR 0xD4, CHR 0xD5, CHR 0xD6, CHR 0xD8,
        CHR 0xD9, CHR 0xDA, CHR 0xDB, CHR 0xDC, CHR 0xDD, CHR 0xDE]"

definition lower_chars :: string where
  "lower_chars =
     ''abcdefghijklmnopqrstuvwxyz'' @
       [CHR 0xE0, CHR 0xE1, CHR 0xE2, CHR 0xE3, CHR 0xE4, CHR 0xE5, CHR 0xE6, CHR 0xE7,
        CHR 0xE8, CHR 0xE9, CHR 0xEA, CHR 0xEB, CHR 0xEC, CHR 0xED, CHR 0xEE, CHR 0xEF,
        CHR 0xF0, CHR 0xF1, CHR 0xF2, CHR 0xF3, CHR 0xF4, CHR 0xF5, CHR 0xF6, CHR 0xF8,
        CHR 0xF9, CHR 0xFA, CHR 0xFB, CHR 0xFC, CHR 0xFD, CHR 0xFE]"

definition lower_char :: "char \<Rightarrow> char" where
  "lower_char c = (case map_of (zip upper_chars lower_chars) c of None \<Rightarrow> c | Some l \<Rightarrow> l)"

definition lower :: "string \<Rightarrow> string" where
  "lower s = map lower_char s"

text \<open>\<^verbatim>\<open>sub in s\<close> on strings.\<close>

fun str_in :: "string \<Rightarrow> string \<Rightarrow> bool" where
  "str_in sub [] = (sub = [])"
| "str_in sub (c # s) = (prefix sub (c # s) \<or> str_in sub s)"

text \<open>The code points \<^verbatim>\<open>str.isspace\<close> accepts, below 256.\<close>

definition isspace :: "char \<Rightarrow> bool" where
  "isspace c =
     (let n = (of_char c :: nat)
      in (9 \<le> n \<and> n \<le> 13) \<or> (28 \<le> n \<and> n \<le> 32) \<or> n = 133 \<or> n = 160)"

definition strip :: "string \<Rightarrow> string" where
  "strip s = rev (dropWhile isspace (rev (dropWhile isspace s)))"

subsection \<open>The builtin \<^verbatim>\<open>int\<close>\<close>

definition isdigit10 :: "char \<Rightarrow> bool" where
  "isdigit10 c = (let n = (of_char c :: nat) in 48 \<le> n \<and> n \<le> 57)"

definition digit_val :: "char \<Rightarrow> nat" where
  "digit_val c = of_char c - 48"

definition nat_of_digits :: "string \<Rightarrow> nat" where
  "nat_of_digits s = foldl (\<lambda>acc c. 10 * acc + digit_val c) 0 s"

text \<open>
  Digits of a decimal literal: non-empty, single underscores allowed between digits.
  The result is the digits with the underscores removed.
\<close>

fun literal_digits :: "string \<Rightarrow> string option" where
  "literal_digits [] = None"
| "literal_digits [c] = (if isdigit10 c then Some [c] else None)"
| "literal_digits (c # d # s) =
     (if isdigit10 c then
        (if d = CHR ''_'' then map_option ((#) c) (literal_digits s)
         else map_option ((#) c) (literal_digits (d # s)))
      else None)"

definition int_max_str_digits :: nat where
  "int_max_str_digits = 4300"

text \<open>\<^verbatim>\<open>int(s)\<close> of a string: surrounding whitespace, an optional sign, a decimal literal.\<close>

definition int_of_str :: "string \<Rightarrow> exn + int" where
  "int_of_str s =
     (let t = strip s;
          (neg, body) = (case t of
              c # r \<Rightarrow> if c = CHR ''-'' then (True, r) else if c = CHR ''+'' then (False, r) else (False, t)
            | [] \<Rightarrow> (False, t))
      in case literal_digits body of
           None \<Rightarrow> Inl ValueError
         | Some ds \<Rightarrow>
             if length ds > int_max_str_digits then Inl ValueError
             else Inr (if neg then - int (nat_of_digits ds) else int (nat_of_digits ds)))"

text \<open>\<^verbatim>\<open>int(f)\<close> of a float truncates towards zero.\<close>

definition int_of_float :: "pyfloat \<Rightarrow> exn + int" where
  "int_of_float f =
     (case f of
        Finite m e \<Rightarrow>
          Inr (if 0 \<le> e then m * 2 ^ nat e
               else if 0 \<le> m then m div 2 ^ nat (- e) else - ((- m) div 2 ^ nat (- e)))
      | PosInf \<Rightarrow> Inl OverflowError
      | NegInf \<Rightarrow> Inl OverflowError
      | NaN \<Rightarrow> Inl ValueError)"

definition py_int :: "json \<Rightarrow> exn + int" where
  "py_int v =
     (case v of
        JNull \<Rightarrow> Inl TypeError
      | JBool b \<Rightarrow> Inr (if b then 1 else 0)
      | JInt i \<Rightarrow> Inr i
      | JFloat f \<Rightarrow> int_of_float f
      | JStr s \<Rightarrow> int_of_str s
      | JArr _ \<Rightarrow> Inl TypeError
      | JObj _ \<Rightarrow> Inl TypeError)"

subsection \<open>Dynamic operations on decoded values\<close>

text \<open>\<^verbatim>\<open>v.get(k, d)\<close>: only a dict has the method.\<close>

definition py_get :: "json \<Rightarrow> string \<Rightarrow> json \<Rightarrow> exn + json" where
  "py_get v k d =
     (case v of
        JObj kvs \<Rightarrow> Inr (case map_of kvs k of None \<Rightarrow> d | Some x \<Rightarrow> x)
      | _ \<Rightarrow> Inl AttributeError)"

text \<open>What \<^verbatim>\<open>list.extend(v)\<close> appends: the elements, the keys or the characters.\<close>

definition py_iter :: "json \<Rightarrow> exn + json list" where
  "py_iter v =
     (case v of
        JArr xs \<Rightarrow> Inr xs
      | JObj kvs \<Rightarrow> Inr (map (\<lambda>kv. JStr (fst kv)) kvs)
      | JStr s \<Rightarrow> Inr (map (\<lambda>c. JStr [c]) s)
      | _ \<Rightarrow> Inl TypeError)"

subsection \<open>Raising\<close>

text \<open>Sequencing of steps that may raise: the first exception ends the computation.\<close>

definition attempt :: "exn + 'a \<Rightarrow> ('a \<Rightarrow> exn + 'b) \<Rightarrow> exn + 'b" where
  "attempt r f = (case r of Inl e \<Rightarrow> Inl e | Inr x \<Rightarrow> f x)"

section \<open>Transport\<close>

text \<open>The module globals that \<^verbatim>\<open>lambda_handler\<close> overwrites from the secret.\<close>

record globals =
  API_VERSION :: string
  VERIFY_SSL :: bool

definition initial_globals :: globals where
  "initial_globals = \<lparr>API_VERSION = ''3.19'', VERIFY_SSL = True\<rparr>"

text \<open>
  The \<^verbatim>\<open>urllib.request.Request\<close> handed to \<^verbatim>\<open>urlopen\<close>, with the keyword arguments of the
  call: \<open>verify_tls\<close> is false when the context disables certificate checks.
\<close>

record request =
  req_method :: string
  req_url :: string
  req_headers :: "(string \<times> string) list"
  req_data :: "string option"
  verify_tls :: bool
  req_timeout :: nat

text \<open>
  What \<^verbatim>\<open>urlopen\<close> does: it returns a response (status, headers, and what reading and
  decoding the body gives), raises \<^verbatim>\<open>HTTPError\<close> (code, headers or \<^verbatim>\<open>None\<close>, and what reading
  gives), or raises something else.
\<close>

datatype urlopen_result =
    Response int "(string \<times> string) list" "exn + string"
  | HTTPError int "(string \<times> string) list option" "exn + string"
  | Failed exn

text \<open>
  The libraries the module calls, over a state \<open>'n\<close> of the network and the server:
  \<^verbatim>\<open>urllib.request.urlopen\<close>, \<^verbatim>\<open>json.loads\<close>, \<^verbatim>\<open>ET.fromstring\<close>, and \<open>repr_of\<close>, the
  builtin \<^verbatim>\<open>str\<close> on floats, lists and dicts.
\<close>

record 'n env =
  urlopen :: "request \<Rightarrow> 'n \<Rightarrow> urlopen_result \<times> 'n"
  json_loads :: "string \<Rightarrow> exn + json"
  fromstring :: "string \<Rightarrow> exn + xml"
  repr_of :: "json \<Rightarrow> string"

text \<open>\<^verbatim>\<open>headers.get(name, default)\<close>: header names compare without case, the first match wins.\<close>

definition header_get :: "(string \<times> string) list \<Rightarrow> string \<Rightarrow> string \<Rightarrow> string" where
  "header_get hs name d =
     (case find (\<lambda>kv. lower (fst kv) = lower name) hs of None \<Rightarrow> d | Some kv \<Rightarrow> snd kv)"

type_synonym reply = "int \<times> string \<times> string"

text \<open>The request object that \<^verbatim>\<open>_http_request\<close> builds and the keyword arguments it opens it with.\<close>

definition make_request ::
  "globals \<Rightarrow> string \<Rightarrow> string \<Rightarrow> (string \<times> string) list \<Rightarrow> string option \<Rightarrow> request" where
  "make_request g meth u hdrs body =
     \<lparr>req_method = meth, req_url = u, req_headers = hdrs, req_data = body,
      verify_tls = VERIFY_SSL g, req_timeout = 30\<rparr>"

text \<open>Lines 44 to 50: what \<^verbatim>\<open>_http_request\<close> makes of the outcome of \<^verbatim>\<open>urlopen\<close>.\<close>

definition reply_of :: "urlopen_result \<Rightarrow> exn + reply" where
  "reply_of res =
     (case res of
        Response status hs rd \<Rightarrow>
          (case rd of
             Inl e \<Rightarrow> Inl e
           | Inr text \<Rightarrow> Inr (status, header_get hs ''Content-Type'' [], text))
      | HTTPError code hs rd \<Rightarrow>
          (let ctype = (case hs of None \<Rightarrow> [] | Some h \<Rightarrow> header_get h ''Content-Type'' [])
           in case rd of
                Inl e \<Rightarrow> Inl e
              | Inr text \<Rightarrow> Inr (code, ctype, text))
      | Failed e \<Rightarrow> Inl e)"

definition http_request ::
  "'n env \<Rightarrow> globals \<Rightarrow> string \<Rightarrow> string \<Rightarrow> (string \<times> string) list \<Rightarrow> string option \<Rightarrow> 'n
     \<Rightarrow> (exn + reply) \<times> 'n" where
  "http_request env g meth u hdrs body n =
     (case urlopen env (make_request g meth u hdrs body) n of (res, n') \<Rightarrow> (reply_of res, n'))"

definition api_base :: "globals \<Rightarrow> string \<Rightarrow> string" where
  "api_base g server = ''https://'' @ server @ ''/api/'' @ API_VERSION g"

section \<open>Markup queries\<close>

definition NS_t :: string where
  "NS_t = ''{http://tableau.com/api}''"

text \<open>All elements below an element, in document order (\<^verbatim>\<open>.//\<close> leaves the element itself out).\<close>

fun descendants :: "xml \<Rightarrow> xml list" where
  "descendants (Element t a cs) = concat (map (\<lambda>c. c # descendants c) cs)"

text \<open>\<^verbatim>\<open>root.find(".//t:name", NS)\<close>, \<^verbatim>\<open>node.find("t:name", NS)\<close> and \<^verbatim>\<open>node.findall("t:name", NS)\<close>.\<close>

definition find_below :: "string \<Rightarrow> xml \<Rightarrow> xml option" where
  "find_below name root = find (\<lambda>x. tag x = NS_t @ name) (descendants root)"

definition find_child :: "string \<Rightarrow> xml \<Rightarrow> xml option" where
  "find_child name node = find (\<lambda>x. tag x = NS_t @ name) (children node)"

definition findall_child :: "string \<Rightarrow> xml \<Rightarrow> xml list" where
  "findall_child name node = filter (\<lambda>x. tag x = NS_t @ name) (children node)"

text \<open>\<^verbatim>\<open>attrib[k]\<close> raises \<^verbatim>\<open>KeyError\<close> on a missing key.\<close>

definition attrib_item :: "xml \<Rightarrow> string \<Rightarrow> exn + string" where
  "attrib_item node k = (case map_of (attrib node) k of None \<Rightarrow> Inl (KeyError k) | Some v \<Rightarrow> Inr v)"

text \<open>An attribute dictionary as a raw record.\<close>

definition attrib_record :: "xml \<Rightarrow> json" where
  "attrib_record u = JObj (map (\<lambda>kv. (fst kv, JStr (snd kv))) (attrib u))"

section \<open>Sign-in\<close>

definition nl :: string where
  "nl = [CHR 0x0A]"

definition dq :: string where
  "dq = [CHR 0x22]"

text \<open>The request body of \<^verbatim>\<open>signin\<close>: the f-string of lines 59 to 64.\<close>

definition signin_body :: "string \<Rightarrow> string \<Rightarrow> string \<Rightarrow> string" where
  "signin_body pat_name pat_secret site_content_url =
     ''<tsRequest>'' @ nl @
     ''  <credentials personalAccessTokenName='' @ dq @ pat_name @ dq @ nl @
     ''               personalAccessTokenSecret='' @ dq @ pat_secret @ dq @ ''>'' @ nl @
     ''    <site contentUrl='' @ dq @ site_content_url @ dq @ ''/>'' @ nl @
     ''  </credentials>'' @ nl @
     ''</tsRequest>''"

definition failure_message :: "string \<Rightarrow> reply \<Rightarrow> string" where
  "failure_message what r =
     (case r of (status, ctype, text) \<Rightarrow>
        what @ '' failed: HTTP '' @ str_int status @ '', Content-Type='' @ ctype @ nl @ take 400 text)"

definition signin ::
  "'n env \<Rightarrow> globals \<Rightarrow> string \<Rightarrow> string \<Rightarrow> string \<Rightarrow> string \<Rightarrow> 'n
     \<Rightarrow> (exn + string \<times> string) \<times> 'n" where
  "signin env g server pat_name pat_secret site_content_url n =
     (let u = api_base g server @ ''/auth/signin'';
          headers = [(''Content-Type'', ''application/xml''), (''Accept'', ''application/xml''),
                     (''User-Agent'', ''curl/8.5.0'')];
          xml_body = signin_body pat_name pat_secret site_content_url
      in case http_request env g ''POST'' u headers (Some xml_body) n of
           (Inl e, n') \<Rightarrow> (Inl e, n')
         | (Inr (status, ctype, text), n') \<Rightarrow>
             if status \<noteq> 200 \<or> \<not> str_in ''xml'' (lower ctype)
             then (Inl (RuntimeError (failure_message ''Sign-in'' (status, ctype, text))), n')
             else
               (attempt (fromstring env text) (\<lambda>root.
                  case find_below ''credentials'' root of
                    None \<Rightarrow> Inl AttributeError
                  | Some cred \<Rightarrow>
                      attempt (attrib_item cred ''token'') (\<lambda>token.
                        case find_child ''site'' cred of
                          None \<Rightarrow> Inl AttributeError
                        | Some site \<Rightarrow>
                            attempt (attrib_item site ''id'') (\<lambda>site_id. Inr (token, site_id)))),
                n'))"

section \<open>Listing the users of a site\<close>

definition users_url :: "globals \<Rightarrow> string \<Rightarrow> string \<Rightarrow> int \<Rightarrow> int \<Rightarrow> string" where
  "users_url g server site_id page_size page =
     api_base g server @ ''/sites/'' @ site_id @ ''/users?pageSize='' @ str_int page_size
       @ ''&pageNumber='' @ str_int page"

definition json_headers :: "string \<Rightarrow> (string \<times> string) list" where
  "json_headers token = [(''X-Tableau-Auth'', token), (''Accept'', ''application/json'')]"

definition xml_headers :: "string \<Rightarrow> (string \<times> string) list" where
  "xml_headers token = [(''X-Tableau-Auth'', token), (''Accept'', ''application/xml'')]"

text \<open>Lines 83 and 84: the batch of a structured page, as \<^verbatim>\<open>users.extend\<close> takes it.\<close>

definition page_batch :: "json \<Rightarrow> exn + json list" where
  "page_batch data =
     attempt (py_get data ''users'' (JObj [])) (\<lambda>us.
     attempt (py_get us ''user'' (JArr [])) (\<lambda>b. py_iter b))"

text \<open>Line 85: the total, \<^verbatim>\<open>len(batch)\<close> when the page does not give one.\<close>

definition page_total :: "json \<Rightarrow> json list \<Rightarrow> exn + int" where
  "page_total data batch =
     attempt (py_get data ''pagination'' (JObj [])) (\<lambda>pg.
     attempt (py_get pg ''totalAvailable'' (JInt (int (length batch)))) (\<lambda>tv. py_int tv))"

text \<open>
  Lines 82 to 86: the batch of a structured page and whether the loop breaks after it.
\<close>

definition json_page :: "'n env \<Rightarrow> int \<Rightarrow> int \<Rightarrow> string \<Rightarrow> exn + json list \<times> bool" where
  "json_page env page_size page text =
     attempt (json_loads env text) (\<lambda>data.
     attempt (page_batch data) (\<lambda>batch.
     attempt (page_total data batch) (\<lambda>total.
       Inr (batch, page * page_size \<ge> total \<or> batch = []))))"

text \<open>Lines 94 to 101: the batch of a markup page and whether the loop breaks after it.\<close>

definition xml_page :: "'n env \<Rightarrow> int \<Rightarrow> string \<Rightarrow> exn + json list \<times> bool" where
  "xml_page env page_size text =
     attempt (fromstring env text) (\<lambda>root.
       let batch = (case find_below ''users'' root of
                      None \<Rightarrow> []
                    | Some users_node \<Rightarrow> map attrib_record (findall_child ''user'' users_node))
       in Inr (batch, batch = [] \<or> int (length batch) < page_size))"

text \<open>One pass through the body of the \<^verbatim>\<open>while True\<close> loop, lines 78 to 103.\<close>

definition list_site_users_page ::
  "'n env \<Rightarrow> globals \<Rightarrow> string \<Rightarrow> string \<Rightarrow> string \<Rightarrow> int \<Rightarrow> int \<Rightarrow> 'n
     \<Rightarrow> (exn + json list \<times> bool) \<times> 'n" where
  "list_site_users_page env g server site_id token page_size page n =
     (let u = users_url g server site_id page_size page
      in case http_request env g ''GET'' u (json_headers token) None n of
           (Inl e, n1) \<Rightarrow> (Inl e, n1)
         | (Inr (status, ctype, text), n1) \<Rightarrow>
             if status = 200 \<and> prefix ''application/json'' (lower ctype)
             then (json_page env page_size page text, n1)
             else
               (case http_request env g ''GET'' u (xml_headers token) None n1 of
                  (Inl e, n2) \<Rightarrow> (Inl e, n2)
                | (Inr (status2, ctype2, text2), n2) \<Rightarrow>
                    if status2 \<noteq> 200 \<or> \<not> str_in ''xml'' (lower ctype2)
                    then (Inl (RuntimeError (failure_message ''/users'' (status2, ctype2, text2))), n2)
                    else (xml_page env page_size text2, n2)))"

text \<open>The loop: not returning is \<open>None\<close>.\<close>

partial_function (option) list_site_users_loop ::
  "'n env \<Rightarrow> globals \<Rightarrow> string \<Rightarrow> string \<Rightarrow> string \<Rightarrow> int \<Rightarrow> json list \<Rightarrow> int \<Rightarrow> 'n
     \<Rightarrow> ((exn + json list) \<times> 'n) option" where
  "list_site_users_loop env g server site_id token page_size users page n =
     (case list_site_users_page env g server site_id token page_size page n of
        (Inl e, n') \<Rightarrow> Some (Inl e, n')
      | (Inr (batch, stop), n') \<Rightarrow>
          if stop then Some (Inr (users @ batch), n')
          else list_site_users_loop env g server site_id token page_size (users @ batch) (page + 1) n')"

definition list_site_users ::
  "'n env \<Rightarrow> globals \<Rightarrow> string \<Rightarrow> string \<Rightarrow> string \<Rightarrow> int \<Rightarrow> 'n
     \<Rightarrow> ((exn + json list) \<times> 'n) option" where
  "list_site_users env g server site_id token page_size n =
     list_site_users_loop env g server site_id token page_size [] 1 n"

section \<open>CSV to storage\<close>

text \<open>\<^verbatim>\<open>str(v)\<close>, and what an f-string puts for \<^verbatim>\<open>{v}\<close>.\<close>

definition str_of :: "'n env \<Rightarrow> json \<Rightarrow> string" where
  "str_of env v =
     (case v of
        JStr s \<Rightarrow> s
      | JNull \<Rightarrow> ''None''
      | JBool b \<Rightarrow> (if b then ''True'' else ''False'')
      | JInt i \<Rightarrow> str_int i
      | _ \<Rightarrow> repr_of env v)"

text \<open>The list \<^verbatim>\<open>fields\<close> of line 108, also the \<^verbatim>\<open>fieldnames\<close> of the writer.\<close>

definition fieldnames :: "string list" where
  "fieldnames = [''id'', ''name'', ''fullName'', ''siteRole'', ''lastLogin'', ''email'']"

text \<open>Evaluating a list of steps in order; the first exception ends it.\<close>

fun sequence_exn :: "(exn + 'a) list \<Rightarrow> exn + 'a list" where
  "sequence_exn [] = Inr []"
| "sequence_exn (r # rs) = attempt r (\<lambda>x. attempt (sequence_exn rs) (\<lambda>xs. Inr (x # xs)))"

text \<open>The dict comprehension of line 113: \<^verbatim>\<open>{k: u.get(k, "") for k in fields}\<close>.\<close>

definition row_dict :: "json \<Rightarrow> exn + (string \<times> json) list" where
  "row_dict u =
     attempt (sequence_exn (map (\<lambda>k. py_get u k (JStr [])) fieldnames)) (\<lambda>vs. Inr (zip fieldnames vs))"

text \<open>
  \<^verbatim>\<open>csv.DictWriter\<close> with the default dialect: the cells of a row are the values of the field
  names in order (\<^verbatim>\<open>restval\<close> is the empty string); \<^verbatim>\<open>None\<close> is written as the empty string,
  a string as it is and anything else through \<^verbatim>\<open>str\<close>; a cell holding the delimiter, the
  quote character or a character of the line terminator is quoted, with quotes doubled.
\<close>

definition dict_to_list :: "(string \<times> json) list \<Rightarrow> json list" where
  "dict_to_list rowdict = map (\<lambda>k. case map_of rowdict k of None \<Rightarrow> JStr [] | Some v \<Rightarrow> v) fieldnames"

definition cell_text :: "'n env \<Rightarrow> json \<Rightarrow> string" where
  "cell_text env v = (case v of JNull \<Rightarrow> [] | _ \<Rightarrow> str_of env v)"

definition special_char :: "char \<Rightarrow> bool" where
  "special_char c = (c = CHR '','' \<or> c = CHR 0x22 \<or> c = CHR 0x0D \<or> c = CHR 0x0A)"

definition quote_cell :: "string \<Rightarrow> string" where
  "quote_cell s =
     (if list_ex special_char s
      then dq @ concat (map (\<lambda>c. if c = CHR 0x22 then [c, c] else [c]) s) @ dq
      else s)"

fun join_cells :: "string list \<Rightarrow> string" where
  "join_cells [] = []"
| "join_cells [s] = s"
| "join_cells (s # t # ts) = s @ '','' @ join_cells (t # ts)"

definition crlf :: string where
  "crlf = [CHR 0x0D, CHR 0x0A]"

text \<open>\<^verbatim>\<open>writer.writerow\<close> on the texts of the cells: a lone empty cell is written quoted.\<close>

definition writerow_text :: "string list \<Rightarrow> string" where
  "writerow_text cells = (if cells = [[]] then dq @ dq else join_cells (map quote_cell cells)) @ crlf"

definition writerow :: "'n env \<Rightarrow> (string \<times> json) list \<Rightarrow> string" where
  "writerow env rowdict = writerow_text (map (cell_text env) (dict_to_list rowdict))"

text \<open>\<^verbatim>\<open>writeheader\<close> writes the row that maps every field name to itself.\<close>

definition writeheader :: "'n env \<Rightarrow> string" where
  "writeheader env = writerow env (zip fieldnames (map JStr fieldnames))"

text \<open>The loop of lines 112 and 113 over the buffer.\<close>

fun write_rows :: "'n env \<Rightarrow> json list \<Rightarrow> string \<Rightarrow> exn + string" where
  "write_rows env [] buf = Inr buf"
| "write_rows env (u # us) buf =
     attempt (row_dict u) (\<lambda>rowdict. write_rows env us (buf @ writerow env rowdict))"

definition csv_text :: "'n env \<Rightarrow> json list \<Rightarrow> exn + string" where
  "csv_text env users = write_rows env users (writeheader env)"

text \<open>The storage service, over its state \<open>'s\<close>, the secrets service and the process environment.\<close>

record put_args =
  Bucket :: json
  Key :: string
  Body :: string
  ContentType :: string

record secret_value =
  SecretString :: "string option"
  SecretBinary :: "(exn + string) option"

record 's aws =
  put_object :: "put_args \<Rightarrow> 's \<Rightarrow> (exn + unit) \<times> 's"
  get_secret_value :: "string \<Rightarrow> exn + secret_value"
  environ :: "string \<Rightarrow> string option"

definition HARD_CODED_PREFIX :: string where
  "HARD_CODED_PREFIX = ''tableau''"

definition write_csv_to_s3 ::
  "'n env \<Rightarrow> 's aws \<Rightarrow> json list \<Rightarrow> json \<Rightarrow> 's \<Rightarrow> (exn + string) \<times> 's" where
  "write_csv_to_s3 env cloud users bucket s =
     (case csv_text env users of
        Inl e \<Rightarrow> (Inl e, s)
      | Inr body \<Rightarrow>
          (let k = HARD_CODED_PREFIX @ ''/tableau_server_users.csv''
           in case put_object cloud
                     \<lparr>Bucket = bucket, Key = k, Body = body,
                      ContentType = ''text/csv; charset=utf-8''\<rparr> s of
                (Inl e, s') \<Rightarrow> (Inl e, s')
              | (Inr _, s') \<Rightarrow> (Inr k, s')))"

section \<open>The handler\<close>

text \<open>
  \<^verbatim>\<open>_get_secret_json\<close>: the binary secret is given with what decoding it as UTF-8 yields.
\<close>

definition get_secret_json :: "'n env \<Rightarrow> 's aws \<Rightarrow> string \<Rightarrow> exn + json" where
  "get_secret_json env cloud name_or_arn =
     attempt (get_secret_value cloud name_or_arn) (\<lambda>res.
       let val = SecretString res
       in attempt
            (if (val = None \<or> val = Some []) \<and> SecretBinary res \<noteq> None
             then (case SecretBinary res of
                     Some (Inl e) \<Rightarrow> Inl e
                   | Some (Inr t) \<Rightarrow> Inr (Some t)
                   | None \<Rightarrow> Inr val)
             else Inr val)
            (\<lambda>val. json_loads env (case val of None \<Rightarrow> ''{}'' | Some t \<Rightarrow> if t = [] then ''{}'' else t)))"

definition to_bool :: "json \<Rightarrow> bool \<Rightarrow> bool" where
  "to_bool val d =
     (case val of
        JBool b \<Rightarrow> b
      | JStr s \<Rightarrow> lower (strip s) \<in> set [''1'', ''true'', ''yes'', ''y'', ''on'']
      | _ \<Rightarrow> d)"

text \<open>\<^verbatim>\<open>os.environ[k]\<close> and \<^verbatim>\<open>d[k]\<close> on a decoded value.\<close>

definition environ_item :: "'s aws \<Rightarrow> string \<Rightarrow> exn + string" where
  "environ_item cloud k = (case environ cloud k of None \<Rightarrow> Inl (KeyError k) | Some v \<Rightarrow> Inr v)"

definition py_item :: "json \<Rightarrow> string \<Rightarrow> exn + json" where
  "py_item v k =
     (case v of
        JObj kvs \<Rightarrow> (case map_of kvs k of None \<Rightarrow> Inl (KeyError k) | Some x \<Rightarrow> Inr x)
      | _ \<Rightarrow> Inl TypeError)"

record ('n, 's) world =
  net :: 'n
  store :: 's
  glob :: globals

text \<open>The dictionary the handler returns, by its keys.\<close>

record outcome =
  ret_status :: string
  ret_count :: nat
  ret_bucket :: json
  ret_key :: string
  ret_api_version :: string

text \<open>
  Lines 127 to 143: the configuration. The globals are assigned as soon as their value is
  computed, so they are part of what is returned. The values taken from the secret are used
  in f-strings only, so \<^verbatim>\<open>signin\<close> and \<^verbatim>\<open>list_site_users\<close> are given their \<^verbatim>\<open>str\<close>.
\<close>

record config =
  cfg_server :: json
  cfg_site_slug :: json
  cfg_pat_name :: json
  cfg_pat_secret :: json
  cfg_bucket :: json

definition load_config :: "'n env \<Rightarrow> 's aws \<Rightarrow> globals \<Rightarrow> (exn + config) \<times> globals" where
  "load_config env cloud g =
     (case attempt (environ_item cloud ''TABLEAU_SECRET_NAME'') (\<lambda>tableau_secret_name.
           attempt (environ_item cloud ''S3_SECRET_NAME'') (\<lambda>s3_secret_name.
           attempt (get_secret_json env cloud tableau_secret_name) (\<lambda>tsec.
           attempt (get_secret_json env cloud s3_secret_name) (\<lambda>s3sec.
           attempt (py_get tsec ''API_VERSION'' (JStr (API_VERSION g))) (\<lambda>ver.
             Inr (tsec, s3sec, ver)))))) of
        Inl e \<Rightarrow> (Inl e, g)
      | Inr (tsec, s3sec, ver) \<Rightarrow>
          (let g1 = g\<lparr>API_VERSION := str_of env ver\<rparr>
           in case py_get tsec ''VERIFY_SSL'' (JBool (VERIFY_SSL g1)) of
                Inl e \<Rightarrow> (Inl e, g1)
              | Inr v \<Rightarrow>
                  (let g2 = g1\<lparr>VERIFY_SSL := to_bool v True\<rparr>
                   in (attempt (py_item tsec ''SERVER'') (\<lambda>server.
                       attempt (py_get tsec ''SITE_CONTENT_URL'' (JStr [])) (\<lambda>site_slug.
                       attempt (py_item tsec ''PAT_NAME'') (\<lambda>pat_name.
                       attempt (py_item tsec ''PAT_SECRET'') (\<lambda>pat_secret.
                       attempt (py_item s3sec ''S3_BUCKET'') (\<lambda>b.
                         Inr \<lparr>cfg_server = server, cfg_site_slug = site_slug,
                              cfg_pat_name = pat_name, cfg_pat_secret = pat_secret,
                              cfg_bucket = b\<rparr>))))),
                       g2))))"

text \<open>Lines 147 to 156; the log lines are left out.\<close>

definition lambda_handler ::
  "'n env \<Rightarrow> 's aws \<Rightarrow> ('n, 's) world \<Rightarrow> ((exn + outcome) \<times> ('n, 's) world) option" where
  "lambda_handler env cloud w =
     (case load_config env cloud (glob w) of
        (Inl e, g) \<Rightarrow> Some (Inl e, w\<lparr>glob := g\<rparr>)
      | (Inr cfg, g) \<Rightarrow>
          (case signin env g (str_of env (cfg_server cfg)) (str_of env (cfg_pat_name cfg))
                  (str_of env (cfg_pat_secret cfg)) (str_of env (cfg_site_slug cfg)) (net w) of
             (Inl e, n1) \<Rightarrow> Some (Inl e, w\<lparr>net := n1, glob := g\<rparr>)
           | (Inr (token, site_id), n1) \<Rightarrow>
               (case list_site_users env g (str_of env (cfg_server cfg)) site_id token 1000 n1 of
                  None \<Rightarrow> None
                | Some (Inl e, n2) \<Rightarrow> Some (Inl e, w\<lparr>net := n2, glob := g\<rparr>)
                | Some (Inr users, n2) \<Rightarrow>
                    (case write_csv_to_s3 env cloud users (cfg_bucket cfg) (store w) of
                       (Inl e, s') \<Rightarrow> Some (Inl e, w\<lparr>net := n2, store := s', glob := g\<rparr>)
                     | (Inr k, s') \<Rightarrow>
                         Some (Inr \<lparr>ret_status = ''ok'', ret_count = length users,
                                    ret_bucket = cfg_bucket cfg, ret_key = k,
                                    ret_api_version = API_VERSION g\<rparr>,
                               w\<lparr>net := n2, store := s', glob := g\<rparr>)))))"

section \<open>Observing the transport\<close>

text \<open>
  The same libraries with a transport that also records, in order, every request opened
  and what came of it.
\<close>

type_synonym trace = "(request \<times> urlopen_result) list"

definition recording :: "'n env \<Rightarrow> ('n \<times> trace) env" where
  "recording env =
     \<lparr>urlopen = (\<lambda>r st. case urlopen env r (fst st) of
                            (res, n') \<Rightarrow> (res, (n', snd st @ [(r, res)]))),
      json_loads = json_loads env,
      fromstring = fromstring env,
      repr_of = repr_of env\<rparr>"

text \<open>The two requests \<^verbatim>\<open>list_site_users\<close> can make for a page.\<close>

definition json_request :: "globals \<Rightarrow> string \<Rightarrow> string \<Rightarrow> string \<Rightarrow> int \<Rightarrow> int \<Rightarrow> request" where
  "json_request g server site_id token page_size page =
     make_request g ''GET'' (users_url g server site_id page_size page) (json_headers token) None"

definition xml_request :: "globals \<Rightarrow> string \<Rightarrow> string \<Rightarrow> string \<Rightarrow> int \<Rightarrow> int \<Rightarrow> request" where
  "xml_request g server site_id token page_size page =
     make_request g ''GET'' (users_url g server site_id page_size page) (xml_headers token) None"

text \<open>The tests of lines 81 and 92 on a reply.\<close>

definition json_ok :: "reply \<Rightarrow> bool" where
  "json_ok r = (case r of (status, ctype, text) \<Rightarrow> status = 200 \<and> prefix ''application/json'' (lower ctype))"

definition xml_ok :: "reply \<Rightarrow> bool" where
  "xml_ok r = (case r of (status, ctype, text) \<Rightarrow> status = 200 \<and> str_in ''xml'' (lower ctype))"

section \<open>Example servers\<close>

text \<open>A server that refuses the structured format and fails on the markup one.\<close>

definition accept_of :: "request \<Rightarrow> string" where
  "accept_of r = (case map_of (req_headers r) ''Accept'' of None \<Rightarrow> [] | Some a \<Rightarrow> a)"

definition failing_env :: "unit env" where
  "failing_env =
     \<lparr>urlopen = (\<lambda>r n.
        if accept_of r = ''application/json''
        then (HTTPError 406 (Some [(''content-type'', ''text/html'')]) (Inr ''not acceptable''), n)
        else (HTTPError 503 (Some [(''Content-Type'', ''text/plain'')]) (Inr ''busy''), n)),
      json_loads = (\<lambda>t. Inl ValueError),
      fromstring = (\<lambda>t. Inl (LibraryError ''ParseError'')),
      repr_of = (\<lambda>v. [])\<rparr>"

text \<open>A server whose only page is structured and carries no pagination object.\<close>

definition two_users :: "json list" where
  "two_users =
     [JObj [(''id'', JStr ''u1''), (''name'', JStr ''ann'')],
      JObj [(''id'', JStr ''u2''), (''name'', JStr ''bob''), (''email'', JStr ''bob@example.org'')]]"

definition bare_page :: json where
  "bare_page = JObj [(''users'', JObj [(''user'', JArr two_users)])]"

definition bare_env :: "unit env" where
  "bare_env =
     \<lparr>urlopen = (\<lambda>r n.
        (Response 200 [(''Content-Type'', ''application/json;charset=utf-8'')] (Inr ''page''), n)),
      json_loads = (\<lambda>t. if t = ''page'' then Inr bare_page else Inl ValueError),
      fromstring = (\<lambda>t. Inl (LibraryError ''ParseError'')),
      repr_of = (\<lambda>v. [])\<rparr>"

section \<open>Traces in which the structured format comes first\<close>

text \<open>
  A trace of the requests for the pages from \<open>page\<close> on, in which every page is first asked
  for in the structured format, the markup request for a page comes only right after a
  structured reply for that page that failed the test of line 81, and nothing follows a
  structured request that raised.
\<close>

fun structured_first ::
  "globals \<Rightarrow> string \<Rightarrow> string \<Rightarrow> string \<Rightarrow> int \<Rightarrow> int \<Rightarrow> trace \<Rightarrow> bool" where
  "structured_first g server site_id token page_size page [] = True"
| "structured_first g server site_id token page_size page [(r, res)] =
     (r = json_request g server site_id token page_size page \<and>
      (case reply_of res of Inl e \<Rightarrow> True | Inr rp \<Rightarrow> json_ok rp))"
| "structured_first g server site_id token page_size page ((r, res) # (r', res') # rest) =
     (r = json_request g server site_id token page_size page \<and>
      (case reply_of res of
         Inl e \<Rightarrow> False
       | Inr rp \<Rightarrow>
           if json_ok rp
           then structured_first g server site_id token page_size (page + 1) ((r', res') # rest)
           else r' = xml_request g server site_id token page_size page \<and>
                structured_first g server site_id token page_size (page + 1) rest))"

section \<open>A mock server\<close>

text \<open>
  A server holding a fixed list of users (each an attribute list), which it serves in pages
  of \<open>page_len\<close>: page \<open>p\<close> holds the users from position \<open>(p - 1) * page_len\<close> on, and
  a page past the end is empty. The page number is read off the end of the URL. Pages in
  \<open>markup_only\<close> are refused in the structured format (status 406); every page is served
  in markup when asked for. A structured page reports the total under
  \<^verbatim>\<open>pagination.totalAvailable\<close> as \<open>total_field\<close>. The texts of the bodies are
  \<open>json_text\<close> and \<open>xml_text\<close>; what the decoders make of them is \<open>json_payload\<close> and
  \<open>xml_payload\<close>.
\<close>

record mock =
  population :: "(string \<times> string) list list"
  page_len :: nat
  markup_only :: "nat \<Rightarrow> bool"
  total_field :: json
  json_text :: "nat \<Rightarrow> string"
  xml_text :: "nat \<Rightarrow> string"

definition page_slice :: "mock \<Rightarrow> nat \<Rightarrow> (string \<times> string) list list" where
  "page_slice m p = take (page_len m) (drop ((p - 1) * page_len m) (population m))"

definition record_of :: "(string \<times> string) list \<Rightarrow> json" where
  "record_of attrs = JObj (map (\<lambda>kv. (fst kv, JStr (snd kv))) attrs)"

definition json_payload :: "mock \<Rightarrow> nat \<Rightarrow> json" where
  "json_payload m p =
     JObj [(''pagination'',
              JObj [(''pageNumber'', JStr (str_nat p)),
                    (''pageSize'', JStr (str_nat (page_len m))),
                    (''totalAvailable'', total_field m)]),
           (''users'', JObj [(''user'', JArr (map record_of (page_slice m p)))])]"

definition xml_payload :: "mock \<Rightarrow> nat \<Rightarrow> xml" where
  "xml_payload m p =
     Element (NS_t @ ''tsResponse'') []
       [Element (NS_t @ ''pagination'')
          [(''pageNumber'', str_nat p), (''pageSize'', str_nat (page_len m)),
           (''totalAvailable'', str_nat (length (population m)))] [],
        Element (NS_t @ ''users'') []
          (map (\<lambda>u. Element (NS_t @ ''user'') u []) (page_slice m p))]"

definition page_of_url :: "string \<Rightarrow> nat" where
  "page_of_url u = nat_of_digits (rev (takeWhile isdigit10 (rev u)))"

definition json_response :: "mock \<Rightarrow> nat \<Rightarrow> urlopen_result" where
  "json_response m p =
     (if markup_only m p then HTTPError 406 (Some []) (Inr [])
      else Response 200 [(''Content-Type'', ''application/json;charset=utf-8'')] (Inr (json_text m p)))"

definition xml_response :: "mock \<Rightarrow> nat \<Rightarrow> urlopen_result" where
  "xml_response m p =
     Response 200 [(''Content-Type'', ''application/xml;charset=utf-8'')] (Inr (xml_text m p))"

definition mock_urlopen :: "mock \<Rightarrow> request \<Rightarrow> 'n \<Rightarrow> urlopen_result \<times> 'n" where
  "mock_urlopen m r n =
     (if accept_of r = ''application/json'' then (json_response m (page_of_url (req_url r)), n)
      else (xml_response m (page_of_url (req_url r)), n))"

text \<open>The pages an environment has to decode for the run over a mock server.\<close>

definition decodes :: "'n env \<Rightarrow> mock \<Rightarrow> bool" where
  "decodes env m =
     (\<forall>p \<in> set [1 ..< length (population m) div page_len m + 2].
        json_loads env (json_text m p) = Inr (json_payload m p) \<and>
        fromstring env (xml_text m p) = Inr (xml_payload m p))"

text \<open>What a run over the mock server asks for page \<open>p\<close>, and whether it ends there.\<close>

definition mock_block ::
  "globals \<Rightarrow> string \<Rightarrow> string \<Rightarrow> string \<Rightarrow> mock \<Rightarrow> nat \<Rightarrow> trace" where
  "mock_block g server site_id token m p =
     (if markup_only m p
      then [(json_request g server site_id token (int (page_len m)) (int p), json_response m p),
            (xml_request g server site_id token (int (page_len m)) (int p), xml_response m p)]
      else [(json_request g server site_id token (int (page_len m)) (int p), json_response m p)])"

definition mock_stops :: "mock \<Rightarrow> nat \<Rightarrow> bool" where
  "mock_stops m p =
     (if markup_only m p then length (page_slice m p) < page_len m
      else length (population m) \<le> p * page_len m \<or> page_slice m p = [])"

text \<open>
  A mock server of three users in pages of two, whose first page is served in markup only
  and which reports the total as a string.
\<close>

definition three_users :: "(string \<times> string) list list" where
  "three_users =
     [[(''id'', ''u1''), (''name'', ''ann'')],
      [(''id'', ''u2''), (''name'', ''bob''), (''email'', ''bob@example.org'')],
      [(''id'', ''u3''), (''name'', ''cy'')]]"

definition small_mock :: mock where
  "small_mock =
     \<lparr>population = three_users, page_len = 2, markup_only = (\<lambda>p. p = 1),
      total_field = JStr ''3'',
      json_text = (\<lambda>p. ''json:'' @ str_nat p),
      xml_text = (\<lambda>p. ''xml:'' @ str_nat p)\<rparr>"

definition small_env :: "unit env" where
  "small_env =
     \<lparr>urlopen = mock_urlopen small_mock,
      json_loads = (\<lambda>t. if t = ''json:1'' then Inr (json_payload small_mock 1)
                        else if t = ''json:2'' then Inr (json_payload small_mock 2)
                        else Inl ValueError),
      fromstring = (\<lambda>t. if t = ''xml:1'' then Inr (xml_payload small_mock 1)
                        else if t = ''xml:2'' then Inr (xml_payload small_mock 2)
                        else Inl (LibraryError ''ParseError'')),
      repr_of = (\<lambda>v. [])\<rparr>"


text \<open>
  A mock server of 2500 users in pages of 1000, every page served in the structured
  format, which reports the total as a number.
\<close>

definition big_mock :: mock where
  "big_mock =
     \<lparr>population = map (\<lambda>i. [(''id'', str_nat i)]) [0 ..< 2500], page_len = 1000,
      markup_only = (\<lambda>p. False),
      total_field = JInt 2500,
      json_text = (\<lambda>p. ''json:'' @ str_nat p),
      xml_text = (\<lambda>p. ''xml:'' @ str_nat p)\<rparr>"

definition big_env :: "unit env" where
  "big_env =
     \<lparr>urlopen = mock_urlopen big_mock,
      json_loads = (\<lambda>t. if t = ''json:1'' then Inr (json_payload big_mock 1)
                        else if t = ''json:2'' then Inr (json_payload big_mock 2)
                        else if t = ''json:3'' then Inr (json_payload big_mock 3)
                        else Inl ValueError),
      fromstring = (\<lambda>t. if t = ''xml:1'' then Inr (xml_payload big_mock 1)
                        else if t = ''xml:2'' then Inr (xml_payload big_mock 2)
                        else if t = ''xml:3'' then Inr (xml_payload big_mock 3)
                        else Inl (LibraryError ''ParseError'')),
      repr_of = (\<lambda>v. [])\<rparr>"

section \<open>Reading delimited text\<close>


section \<open>An example deployment\<close>

text \<open>
  A transport that counts the requests it has answered. The first request is answered
  as a successful sign-in; each of the next requests up to the \<open>good\<close>-th is answered by a
  structured page of two users that reports a total of 2500; every later request is
  answered by status 503.
\<close>

definition signin_reply :: xml where
  "signin_reply =
     Element (NS_t @ ''tsResponse'') []
       [Element (NS_t @ ''credentials'') [(''token'', ''tok'')]
          [Element (NS_t @ ''site'') [(''id'', ''site''), (''contentUrl'', [])] []]]"

definition partial_page :: json where
  "partial_page =
     JObj [(''pagination'', JObj [(''totalAvailable'', JStr ''2500'')]),
           (''users'', JObj [(''user'', JArr two_users)])]"

definition flaky_env :: "nat \<Rightarrow> nat env" where
  "flaky_env good =
     \<lparr>urlopen = (\<lambda>r n.
        if n = 0
        then (Response 200 [(''Content-Type'', ''application/xml'')] (Inr ''signin''), n + 1)
        else if n < good
        then (Response 200 [(''Content-Type'', ''application/json'')] (Inr ''page''), n + 1)
        else (HTTPError 503 (Some [(''Content-Type'', ''text/plain'')]) (Inr ''busy''), n + 1)),
      json_loads = (\<lambda>t.
        if t = ''tableau''
        then Inr (JObj [(''SERVER'', JStr ''host''), (''PAT_NAME'', JStr ''name''),
                        (''PAT_SECRET'', JStr ''secret'')])
        else if t = ''s3'' then Inr (JObj [(''S3_BUCKET'', JStr ''bucket'')])
        else if t = ''page'' then Inr partial_page
        else Inl ValueError),
      fromstring = (\<lambda>t. if t = ''signin'' then Inr signin_reply
                        else Inl (LibraryError ''ParseError'')),
      repr_of = (\<lambda>v. [])\<rparr>"

text \<open>
  A storage service that keeps the objects put, in order, and a secrets service in which
  the text of a secret is its name.
\<close>

definition vault :: "put_args list aws" where
  "vault =
     \<lparr>put_object = (\<lambda>a s. (Inr (), s @ [a])),
      get_secret_value = (\<lambda>name. Inr \<lparr>SecretString = Some name, SecretBinary = None\<rparr>),
      environ = map_of [(''TABLEAU_SECRET_NAME'', ''tableau''), (''S3_SECRET_NAME'', ''s3'')]\<rparr>"

definition flaky_config :: config where
  "flaky_config =
     \<lparr>cfg_server = JStr ''host'', cfg_site_slug = JStr [], cfg_pat_name = JStr ''name'',
      cfg_pat_secret = JStr ''secret'', cfg_bucket = JStr ''bucket''\<rparr>"

section \<open>Reading the sign-in body\<close>








section \<open>Basic facts\<close>

lemma attempt_Inl [simp]: "attempt (Inl e) f = Inl e"
  by (simp add: attempt_def)

lemma attempt_Inr [simp]: "attempt (Inr x) f = f x"
  by (simp add: attempt_def)

lemma attempt_eq_Inr:
  "attempt r f = Inr y \<longleftrightarrow> (\<exists>x. r = Inr x \<and> f x = Inr y)"
  by (cases r) simp_all

lemma recording_simps [simp]:
  "json_loads (recording env) = json_loads env"
  "fromstring (recording env) = fromstring env"
  "repr_of (recording env) = repr_of env"
  by (simp_all add: recording_def)

lemma urlopen_recording:
  "urlopen env r n = (res, n') \<Longrightarrow>
   urlopen (recording env) r (n, tr) = (res, (n', tr @ [(r, res)]))"
  by (simp add: recording_def)

lemma http_request_urlopen:
  "urlopen env (make_request g meth u hdrs body) n = (res, n') \<Longrightarrow>
   http_request env g meth u hdrs body n = (reply_of res, n')"
  by (simp add: http_request_def)

text \<open>The three ways through the loop body, by what the transport answers.\<close>

lemma page_transport_failure:
  assumes "urlopen env (json_request g server site_id token page_size page) n = (r1, n1)"
    and "reply_of r1 = Inl e"
  shows "list_site_users_page env g server site_id token page_size page n = (Inl e, n1)"
  using assms
  by (simp add: list_site_users_page_def json_request_def http_request_def)

lemma page_structured:
  assumes "urlopen env (json_request g server site_id token page_size page) n = (r1, n1)"
    and "reply_of r1 = Inr (st, ct, tx)"
    and "json_ok (st, ct, tx)"
  shows "list_site_users_page env g server site_id token page_size page n
           = (json_page env page_size page tx, n1)"
  using assms
  by (simp add: list_site_users_page_def json_request_def http_request_def json_ok_def)

lemma page_fallback:
  assumes "urlopen env (json_request g server site_id token page_size page) n = (r1, n1)"
    and "reply_of r1 = Inr rp"
    and "\<not> json_ok rp"
    and "urlopen env (xml_request g server site_id token page_size page) n1 = (r2, n2)"
  shows "list_site_users_page env g server site_id token page_size page n
           = (case reply_of r2 of
                Inl e \<Rightarrow> Inl e
              | Inr rp2 \<Rightarrow>
                  if xml_ok rp2 then xml_page env page_size (snd (snd rp2))
                  else Inl (RuntimeError (failure_message ''/users'' rp2)),
              n2)"
  using assms
  by (cases rp; cases "reply_of r2")
     (auto simp add: list_site_users_page_def json_request_def xml_request_def
        http_request_def json_ok_def xml_ok_def)

lemmas str_eval = lower_def lower_char_def upper_chars_def lower_chars_def

text \<open>Unfolding the loop once.\<close>

lemma loop_error:
  "list_site_users_page env g server site_id token page_size page n = (Inl e, n') \<Longrightarrow>
   list_site_users_loop env g server site_id token page_size users page n = Some (Inl e, n')"
  by (subst list_site_users_loop.simps) simp

lemma loop_stop:
  "list_site_users_page env g server site_id token page_size page n = (Inr (batch, True), n') \<Longrightarrow>
   list_site_users_loop env g server site_id token page_size users page n
     = Some (Inr (users @ batch), n')"
  by (subst list_site_users_loop.simps) simp

lemma loop_continue:
  "list_site_users_page env g server site_id token page_size page n = (Inr (batch, False), n') \<Longrightarrow>
   list_site_users_loop env g server site_id token page_size users page n
     = list_site_users_loop env g server site_id token page_size (users @ batch) (page + 1) n'"
  by (subst list_site_users_loop.simps) simp

lemmas req_eval = json_request_def xml_request_def make_request_def users_url_def api_base_def
  json_headers_def xml_headers_def accept_of_def

lemma page_total_default:
  assumes "map_of kvs ''pagination'' = None
           \<or> (\<exists>pg. map_of kvs ''pagination'' = Some (JObj pg) \<and> map_of pg ''totalAvailable'' = None)"
  shows "page_total (JObj kvs) batch = Inr (int (length batch))"
  using assms by (auto simp add: page_total_def py_get_def py_int_def)

text \<open>The trace of a run is a trace in which the structured format comes first.\<close>

lemma structured_first_Cons_ok:
  assumes "reply_of res = Inr rp" "json_ok rp"
    and "structured_first g server site_id token page_size (page + 1) rest"
  shows "structured_first g server site_id token page_size page
           ((json_request g server site_id token page_size page, res) # rest)"
  using assms by (cases rest) auto

lemma structured_first_Cons_fallback:
  assumes "reply_of res = Inr rp" "\<not> json_ok rp"
    and "structured_first g server site_id token page_size (page + 1) rest"
  shows "structured_first g server site_id token page_size page
           ((json_request g server site_id token page_size page, res)
             # (xml_request g server site_id token page_size page, res') # rest)"
  using assms by simp

lemma page_recording:
  assumes "list_site_users_page (recording env) g server site_id token page_size page (n, tr)
             = (res, (n', tr'))"
  shows "\<exists>block. tr' = tr @ block \<and> block \<noteq> []
           \<and> structured_first g server site_id token page_size page block
           \<and> (\<forall>b stop rest. res = Inr (b, stop)
                 \<longrightarrow> structured_first g server site_id token page_size (page + 1) rest
                 \<longrightarrow> structured_first g server site_id token page_size page (block @ rest))"
proof -
  let ?j = "json_request g server site_id token page_size page"
  let ?x = "xml_request g server site_id token page_size page"
  obtain r1 n1 where j: "urlopen env ?j n = (r1, n1)"
    by (cases "urlopen env ?j n")
  show ?thesis
  proof (cases "reply_of r1")
    case (Inl e)
    from page_transport_failure [OF urlopen_recording [OF j] Inl, of tr] assms
    have "tr' = tr @ [(?j, r1)]" "res = Inl e" by simp_all
    with Inl show ?thesis by simp
  next
    case (Inr rp)
    obtain st ct tx where rp: "rp = (st, ct, tx)" by (cases rp)
    show ?thesis
    proof (cases "json_ok rp")
      case True
      from page_structured [OF urlopen_recording [OF j] Inr [unfolded rp] True [unfolded rp], of tr] assms
      have "tr' = tr @ [(?j, r1)]" by simp
      with Inr True show ?thesis
        by (auto intro: structured_first_Cons_ok)
    next
      case False
      obtain r2 n2 where x: "urlopen env ?x n1 = (r2, n2)"
        by (cases "urlopen env ?x n1")
      from page_fallback [OF urlopen_recording [OF j] Inr False urlopen_recording [OF x]] assms
      have "tr' = tr @ [(?j, r1), (?x, r2)]" by simp
      with Inr False show ?thesis
        by (auto intro: structured_first_Cons_fallback)
    qed
  qed
qed

lemma loop_recording_trace:
  assumes "list_site_users_loop renv g server site_id token page_size users page st = Some y"
  shows "renv = recording env \<longrightarrow>
         (\<exists>tr'. snd (snd y) = snd st @ tr'
           \<and> structured_first g server site_id token page_size page tr')"
  using assms
proof (induction renv g server site_id token page_size users page st y
    rule: list_site_users_loop.raw_induct [rotated 1, consumes 1])
  case (1 loop renv g server site_id token page_size users page st y)
  show ?case
  proof
    assume renv: "renv = recording env"
    obtain n tr where st: "st = (n, tr)" by (cases st)
    obtain res n' tr' where step:
      "list_site_users_page (recording env) g server site_id token page_size page (n, tr)
         = (res, (n', tr'))"
      by (cases "list_site_users_page (recording env) g server site_id token page_size page (n, tr)") auto
    from page_recording [OF step] obtain block where
      blk: "tr' = tr @ block" "structured_first g server site_id token page_size page block"
      and glue: "\<And>b stop rest. res = Inr (b, stop)
                   \<Longrightarrow> structured_first g server site_id token page_size (page + 1) rest
                   \<Longrightarrow> structured_first g server site_id token page_size page (block @ rest)"
      by blast
    note body = 1(2) [unfolded renv st step, simplified]
    show "\<exists>tr'. snd (snd y) = snd st @ tr'
           \<and> structured_first g server site_id token page_size page tr'"
    proof (cases res)
      case (Inl e)
      with body blk st show ?thesis by auto
    next
      case (Inr bs)
      obtain batch stop where bs: "bs = (batch, stop)" by (cases bs)
      show ?thesis
      proof (cases stop)
        case True
        with body blk st Inr bs show ?thesis by auto
      next
        case False
        with body Inr bs
        have rec: "loop (recording env) g server site_id token page_size (users @ batch) (page + 1) (n', tr')
                     = Some y"
          by simp
        from 1(1) [OF rec] obtain tr'' where
          t: "snd (snd y) = tr' @ tr''"
          and sf: "structured_first g server site_id token page_size (page + 1) tr''"
          by auto
        from glue [OF _ sf] Inr bs
        have "structured_first g server site_id token page_size page (block @ tr'')" by simp
        with t blk st show ?thesis by simp
      qed
    qed
  qed
qed

text \<open>Reading the page number back off the URL.\<close>

lemma digit_cases: "k < 10 \<Longrightarrow> k \<in> {0, 1, 2, 3, 4, 5, 6, 7, 8, 9::nat}"
  by auto

lemma digits10_nth:
  assumes "k < 10"
  shows "isdigit10 (digits10 ! k) \<and> digit_val (digits10 ! k) = k"
  using digit_cases [OF assms]
  by (auto simp add: digits10_def isdigit10_def digit_val_def)

lemma str_nat_digits: "\<forall>c \<in> set (str_nat n). isdigit10 c"
proof (induction n rule: str_nat.induct)
  case (1 n)
  show ?case
  proof (cases "n < 10")
    case True
    then show ?thesis by (subst str_nat.simps) (simp add: digits10_nth)
  next
    case False
    with 1 show ?thesis
      by (subst str_nat.simps) (simp add: digits10_nth)
  qed
qed

lemma nat_of_digits_snoc: "nat_of_digits (s @ [c]) = 10 * nat_of_digits s + digit_val c"
  by (simp add: nat_of_digits_def)

lemma nat_of_digits_str_nat: "nat_of_digits (str_nat n) = n"
proof (induction n rule: str_nat.induct)
  case (1 n)
  show ?case
  proof (cases "n < 10")
    case True
    then show ?thesis
      by (subst str_nat.simps) (simp add: nat_of_digits_def digits10_nth)
  next
    case False
    with 1 show ?thesis
      by (subst str_nat.simps) (simp add: nat_of_digits_snoc digits10_nth)
  qed
qed

lemma takeWhile_digits_append:
  assumes "\<forall>c \<in> set ds. isdigit10 c" "\<not> isdigit10 x"
  shows "takeWhile isdigit10 (ds @ x # rest) = ds"
  using assms by (induction ds) simp_all

lemma page_of_url_users_url:
  "page_of_url (users_url g server site_id page_size (int p)) = p"
proof -
  have eq: "users_url g server site_id page_size (int p)
          = (api_base g server @ ''/sites/'' @ site_id @ ''/users?pageSize='' @ str_int page_size
               @ ''&pageNumber'') @ [CHR ''=''] @ str_nat p"
    by (simp add: users_url_def str_int_def)
  have "\<forall>c \<in> set (rev (str_nat p)). isdigit10 c"
    using str_nat_digits by simp
  moreover have "\<not> isdigit10 CHR ''=''"
    by (simp add: isdigit10_def)
  ultimately have "takeWhile isdigit10 (rev (str_nat p) @ CHR ''='' # rev
      (api_base g server @ ''/sites/'' @ site_id @ ''/users?pageSize='' @ str_int page_size
               @ ''&pageNumber'')) = rev (str_nat p)"
    by (rule takeWhile_digits_append)
  then show ?thesis
    unfolding page_of_url_def eq by (simp add: nat_of_digits_str_nat)
qed

text \<open>One page of a run over the mock server.\<close>

lemma accept_of_json_request [simp]:
  "accept_of (json_request g server site_id token page_size page) = ''application/json''"
  by (simp add: json_request_def make_request_def json_headers_def accept_of_def)

lemma accept_of_xml_request [simp]:
  "accept_of (xml_request g server site_id token page_size page) = ''application/xml''"
  by (simp add: xml_request_def make_request_def xml_headers_def accept_of_def)

lemma req_url_requests [simp]:
  "req_url (json_request g server site_id token page_size page) = users_url g server site_id page_size page"
  "req_url (xml_request g server site_id token page_size page) = users_url g server site_id page_size page"
  by (simp_all add: json_request_def xml_request_def make_request_def)

lemma mock_urlopen_json:
  "mock_urlopen m (json_request g server site_id token page_size (int p)) n = (json_response m p, n)"
  by (simp add: mock_urlopen_def page_of_url_users_url)

lemma mock_urlopen_xml:
  "mock_urlopen m (xml_request g server site_id token page_size (int p)) n = (xml_response m p, n)"
  by (simp add: mock_urlopen_def page_of_url_users_url)

lemma reply_of_json_response:
  "reply_of (json_response m p)
     = (if markup_only m p then Inr (406, [], [])
        else Inr (200, ''application/json;charset=utf-8'', json_text m p))"
  by (simp add: json_response_def reply_of_def header_get_def)

lemma reply_of_xml_response:
  "reply_of (xml_response m p) = Inr (200, ''application/xml;charset=utf-8'', xml_text m p)"
  by (simp add: xml_response_def reply_of_def header_get_def)

lemma json_ok_mock [simp]:
  "json_ok (200, ''application/json;charset=utf-8'', t)"
  "\<not> json_ok (406, [], [])"
  by (simp_all add: json_ok_def str_eval)

lemma xml_ok_mock [simp]: "xml_ok (200, ''application/xml;charset=utf-8'', t)"
  by (simp add: xml_ok_def str_eval)

lemma page_batch_json_payload:
  "page_batch (json_payload m p) = Inr (map record_of (page_slice m p))"
  by (simp add: page_batch_def json_payload_def py_get_def py_iter_def)

lemma page_total_json_payload:
  "page_total (json_payload m p) b = py_int (total_field m)"
  by (simp add: page_total_def json_payload_def py_get_def)

lemma attrib_record_user [simp]: "attrib_record (Element t u cs) = record_of u"
  by (simp add: attrib_record_def record_of_def)

lemma find_users_xml_payload:
  "find_below ''users'' (xml_payload m p)
     = Some (Element (NS_t @ ''users'') [] (map (\<lambda>u. Element (NS_t @ ''user'') u []) (page_slice m p)))"
  by (simp add: find_below_def xml_payload_def NS_t_def)

lemma findall_user:
  "findall_child ''user'' (Element t a (map (\<lambda>u. Element (NS_t @ ''user'') u []) us))
     = map (\<lambda>u. Element (NS_t @ ''user'') u []) us"
  by (simp add: findall_child_def)

lemma xml_page_mock:
  assumes "fromstring env (xml_text m p) = Inr (xml_payload m p)" and "0 < page_len m"
  shows "xml_page env (int (page_len m)) (xml_text m p)
           = Inr (map record_of (page_slice m p), length (page_slice m p) < page_len m)"
  using assms
  by (auto simp add: xml_page_def find_users_xml_payload findall_user o_def Let_def)

lemma json_page_mock:
  assumes "json_loads env (json_text m p) = Inr (json_payload m p)"
    and "py_int (total_field m) = Inr (int (length (population m)))"
  shows "json_page env (int (page_len m)) (int p) (json_text m p)
           = Inr (map record_of (page_slice m p),
                  length (population m) \<le> p * page_len m \<or> page_slice m p = [])"
proof -
  have "(int (length (population m)) \<le> int p * int (page_len m))
          = (length (population m) \<le> p * page_len m)"
    by (metis of_nat_le_iff of_nat_mult)
  then show ?thesis
    using assms
    by (simp add: json_page_def page_batch_json_payload page_total_json_payload)
qed

lemma mock_page:
  fixes env :: "'n env"
  assumes u: "urlopen env = mock_urlopen m"
    and j: "json_loads env (json_text m p) = Inr (json_payload m p)"
    and x: "fromstring env (xml_text m p) = Inr (xml_payload m p)"
    and t: "py_int (total_field m) = Inr (int (length (population m)))"
    and l: "0 < page_len m"
  shows "list_site_users_page (recording env) g server site_id token (int (page_len m)) (int p) (n, tr)
           = (Inr (map record_of (page_slice m p), mock_stops m p),
              (n, tr @ mock_block g server site_id token m p))"
proof (cases "markup_only m p")
  case False
  have o: "urlopen env (json_request g server site_id token (int (page_len m)) (int p)) n
             = (json_response m p, n)"
    by (simp add: u mock_urlopen_json)
  have r: "reply_of (json_response m p) = Inr (200, ''application/json;charset=utf-8'', json_text m p)"
    using False by (simp add: reply_of_json_response)
  show ?thesis
    using page_structured [OF urlopen_recording [OF o] r, of tr] False json_page_mock [OF j t]
    by (simp add: mock_stops_def mock_block_def json_page_def)
next
  case True
  have o: "urlopen env (json_request g server site_id token (int (page_len m)) (int p)) n
             = (json_response m p, n)"
    by (simp add: u mock_urlopen_json)
  have r: "reply_of (json_response m p) = Inr (406, [], [])"
    using True by (simp add: reply_of_json_response)
  have o2: "urlopen env (xml_request g server site_id token (int (page_len m)) (int p)) n
             = (xml_response m p, n)"
    by (simp add: u mock_urlopen_xml)
  show ?thesis
    using page_fallback [OF urlopen_recording [OF o] r _ urlopen_recording [OF o2], of tr] True
      xml_page_mock [OF x l]
    by (simp add: mock_stops_def mock_block_def reply_of_xml_response xml_page_def)
qed

text \<open>A whole run over the mock server.\<close>

lemma page_slice_rest:
  assumes "length (population m) \<le> p * page_len m"
  shows "drop ((p - 1) * page_len m) (population m) = page_slice m p"
proof -
  have "length (drop ((p - 1) * page_len m) (population m)) \<le> page_len m"
    using assms by (cases p) (simp_all add: algebra_simps)
  then show ?thesis by (simp add: page_slice_def)
qed

lemma mult_pred_page: "1 \<le> (p::nat) \<Longrightarrow> p * l = (p - 1) * l + l"
  by (cases p) simp_all

lemma page_slice_next:
  assumes "1 \<le> p"
  shows "page_slice m p @ drop (p * page_len m) (population m)
           = drop ((p - 1) * page_len m) (population m)"
proof -
  have "page_slice m p @ drop (page_len m) (drop ((p - 1) * page_len m) (population m))
          = drop ((p - 1) * page_len m) (population m)"
    by (simp only: page_slice_def append_take_drop_id)
  moreover have "drop (page_len m) (drop ((p - 1) * page_len m) (population m))
                   = drop (p * page_len m) (population m)"
    by (simp add: mult_pred_page [OF assms] add.commute)
  ultimately show ?thesis by simp
qed

lemma mock_run:
  fixes env :: "'n env"
  assumes u: "urlopen env = mock_urlopen m"
    and d: "decodes env m"
    and t: "py_int (total_field m) = Inr (int (length (population m)))"
    and l: "0 < page_len m"
  shows "1 \<le> k \<Longrightarrow> (k - 1) * page_len m \<le> length (population m) \<Longrightarrow>
         \<exists>K. k \<le> K \<and> K \<le> length (population m) div page_len m + 1
              \<and> mock_stops m K \<and> (\<forall>p. k \<le> p \<and> p < K \<longrightarrow> \<not> mock_stops m p)
              \<and> list_site_users_loop (recording env) g server site_id token (int (page_len m))
                  users (int k) (n, tr)
                = Some (Inr (users @ map record_of (drop ((k - 1) * page_len m) (population m))),
                        (n, tr @ concat (map (mock_block g server site_id token m) [k ..< Suc K])))"
proof (induction "length (population m) - (k - 1) * page_len m" arbitrary: k users tr
    rule: less_induct)
  case less
  let ?N = "length (population m)"
  let ?L = "page_len m"
  let ?B = "mock_block g server site_id token m"
  have kb: "k - 1 \<le> ?N div ?L"
    using less.prems(2) l by (simp add: less_eq_div_iff_mult_less_eq)
  then have kin: "k \<in> set [1 ..< ?N div ?L + 2]"
    using less.prems(1) by auto
  from d kin have j: "json_loads env (json_text m k) = Inr (json_payload m k)"
    and x: "fromstring env (xml_text m k) = Inr (xml_payload m k)"
    unfolding decodes_def by blast+
  note step = mock_page [OF u j x t l, of g server site_id token n tr]
  show ?case
  proof (cases "mock_stops m k")
    case True
    have "?N \<le> k * ?L"
    proof (cases "markup_only m k")
      case True
      with \<open>mock_stops m k\<close> have "length (page_slice m k) < ?L"
        by (simp add: mock_stops_def)
      then have "?N - (k - 1) * ?L < ?L"
        by (simp add: page_slice_def)
      then have "?N \<le> (k - 1) * ?L + ?L"
        by linarith
      then show ?thesis
        by (simp add: mult_pred_page [OF less.prems(1)])
    next
      case False
      with \<open>mock_stops m k\<close> have "?N \<le> k * ?L \<or> page_slice m k = []"
        by (simp add: mock_stops_def)
      then show ?thesis
      proof
        assume "page_slice m k = []"
        then have "?N \<le> (k - 1) * ?L"
          using l by (simp add: page_slice_def)
        also have "\<dots> \<le> k * ?L" by simp
        finally show ?thesis .
      qed simp
    qed
    then have rest: "drop ((k - 1) * ?L) (population m) = page_slice m k"
      by (rule page_slice_rest)
    have run: "list_site_users_loop (recording env) g server site_id token (int ?L) users (int k) (n, tr)
            = Some (Inr (users @ map record_of (drop ((k - 1) * ?L) (population m))),
                    (n, tr @ concat (map ?B [k ..< Suc k])))"
      using step True rest by (simp add: loop_stop)
    have "k \<le> ?N div ?L + 1"
      using kb by linarith
    moreover have "\<forall>p. k \<le> p \<and> p < k \<longrightarrow> \<not> mock_stops m p"
      by auto
    ultimately show ?thesis
      using True run by (intro exI [of _ k]) simp
  next
    case False
    have lt: "k * ?L \<le> ?N \<and> (k - 1) * ?L < ?N"
    proof (cases "markup_only m k")
      case True
      with False have "length (page_slice m k) = ?L"
        by (simp add: mock_stops_def page_slice_def)
      then have "?L \<le> ?N - (k - 1) * ?L"
        by (simp add: page_slice_def)
      then have "(k - 1) * ?L + ?L \<le> ?N \<and> (k - 1) * ?L < ?N"
        using l by linarith
      then show ?thesis
        by (simp add: mult_pred_page [OF less.prems(1)])
    next
      case False
      with \<open>\<not> mock_stops m k\<close> have "k * ?L < ?N"
        by (simp add: mock_stops_def)
      moreover have "(k - 1) * ?L \<le> k * ?L" by simp
      ultimately show ?thesis by linarith
    qed
    have cont: "list_site_users_loop (recording env) g server site_id token (int ?L) users (int k) (n, tr)
            = list_site_users_loop (recording env) g server site_id token (int ?L)
                (users @ map record_of (page_slice m k)) (int (Suc k)) (n, tr @ ?B k)"
      using step False by (simp add: loop_continue add.commute)
    have "(k - 1) * ?L < k * ?L"
      using l by (simp add: mult_pred_page [OF less.prems(1)])
    then have "?N - k * ?L < ?N - (k - 1) * ?L"
      using lt by linarith
    then have dec: "?N - (Suc k - 1) * ?L < ?N - (k - 1) * ?L"
      by (simp only: diff_Suc_1)
    have p1: "1 \<le> Suc k" by simp
    have p2: "(Suc k - 1) * ?L \<le> ?N"
      using lt by (simp only: diff_Suc_1)
    from less.hyps [OF dec p1 p2, of "users @ map record_of (page_slice m k)" "tr @ ?B k"]
    obtain K where
      K: "Suc k \<le> K" "K \<le> ?N div ?L + 1" "mock_stops m K"
        "\<forall>p. Suc k \<le> p \<and> p < K \<longrightarrow> \<not> mock_stops m p"
      and run: "list_site_users_loop (recording env) g server site_id token (int ?L)
                (users @ map record_of (page_slice m k)) (int (Suc k)) (n, tr @ ?B k)
            = Some (Inr ((users @ map record_of (page_slice m k))
                       @ map record_of (drop ((Suc k - 1) * ?L) (population m))),
                    (n, (tr @ ?B k) @ concat (map ?B [Suc k ..< Suc K])))"
      by blast
    have "map record_of (page_slice m k) @ map record_of (drop (k * ?L) (population m))
            = map record_of (drop ((k - 1) * ?L) (population m))"
      using page_slice_next [OF less.prems(1), of m] by (metis map_append)
    then have res: "(users @ map record_of (page_slice m k))
                       @ map record_of (drop ((Suc k - 1) * ?L) (population m))
                  = users @ map record_of (drop ((k - 1) * ?L) (population m))"
      by simp
    have "[k ..< Suc K] = k # [Suc k ..< Suc K]"
      using K(1) by (simp add: upt_conv_Cons)
    then have trc: "(tr @ ?B k) @ concat (map ?B [Suc k ..< Suc K])
                  = tr @ concat (map ?B [k ..< Suc K])"
      by simp
    have first: "\<forall>p. k \<le> p \<and> p < K \<longrightarrow> \<not> mock_stops m p"
    proof (intro allI impI)
      fix p assume "k \<le> p \<and> p < K"
      then have "p = k \<or> (Suc k \<le> p \<and> p < K)" by linarith
      with False K(4) show "\<not> mock_stops m p" by blast
    qed
    have "k \<le> K" using K(1) by simp
    with K(2,3) first cont run res trc show ?thesis
      by (intro exI [of _ K]) simp
  qed
qed

lemma json_page_recording [simp]: "json_page (recording env) = json_page env"
  by (intro ext) (simp add: json_page_def)

lemma xml_page_recording [simp]: "xml_page (recording env) = xml_page env"
  by (intro ext) (simp add: xml_page_def)





lemma mock_run_from_start:
  fixes env :: "'n env"
  assumes u: "urlopen env = mock_urlopen m"
    and d: "decodes env m"
    and t: "py_int (total_field m) = Inr (int (length (population m)))"
    and l: "0 < page_len m"
  shows "\<exists>K. 1 \<le> K \<and> K \<le> length (population m) div page_len m + 1
              \<and> mock_stops m K \<and> (\<forall>p. 1 \<le> p \<and> p < K \<longrightarrow> \<not> mock_stops m p)
              \<and> list_site_users (recording env) g server site_id token (int (page_len m)) (n, tr)
                = Some (Inr (map record_of (population m)),
                        (n, tr @ concat (map (mock_block g server site_id token m) [1 ..< Suc K])))"
  using mock_run [OF u d t l, of 1 g server site_id token "[]" n tr]
  by (simp add: list_site_users_def)

lemmas small_eval = small_env_def small_mock_def three_users_def

lemma small_texts:
  "json_text small_mock 1 = ''json:1''" "json_text small_mock 2 = ''json:2''"
  "xml_text small_mock 1 = ''xml:1''" "xml_text small_mock 2 = ''xml:2''"
  by (simp_all add: small_mock_def str_nat.simps digits10_def)

lemma small_env_hyps:
  "urlopen small_env = mock_urlopen small_mock"
  "decodes small_env small_mock"
  "py_int (total_field small_mock) = Inr (int (length (population small_mock)))"
  "0 < page_len small_mock"
proof -
  show "urlopen small_env = mock_urlopen small_mock"
    by (simp add: small_env_def)
  have len: "length (population small_mock) div page_len small_mock + 2 = 3"
    by (simp add: small_mock_def three_users_def)
  have pages: "set [1 ..< 3] = {1, 2::nat}"
    by auto
  have j1: "json_loads small_env (json_text small_mock 1) = Inr (json_payload small_mock 1)"
    by (simp only: small_texts) (simp add: small_env_def)
  have j2: "json_loads small_env (json_text small_mock 2) = Inr (json_payload small_mock 2)"
    by (simp only: small_texts) (simp add: small_env_def)
  have x1: "fromstring small_env (xml_text small_mock 1) = Inr (xml_payload small_mock 1)"
    by (simp only: small_texts) (simp add: small_env_def)
  have x2: "fromstring small_env (xml_text small_mock 2) = Inr (xml_payload small_mock 2)"
    by (simp only: small_texts) (simp add: small_env_def)
  have "\<forall>p \<in> {1, 2::nat}.
          json_loads small_env (json_text small_mock p) = Inr (json_payload small_mock p) \<and>
          fromstring small_env (xml_text small_mock p) = Inr (xml_payload small_mock p)"
    using j1 j2 x1 x2 by simp
  then show "decodes small_env small_mock"
    unfolding decodes_def len pages .
  show "py_int (total_field small_mock) = Inr (int (length (population small_mock)))"
    by (simp add: small_eval py_int_def int_of_str_def strip_def isspace_def isdigit10_def
        nat_of_digits_def digit_val_def int_max_str_digits_def)
  show "0 < page_len small_mock"
    by (simp add: small_mock_def)
qed

text \<open>The run over the small mock server.\<close>

lemma small_mock_stops:
  "\<not> mock_stops small_mock 1" "mock_stops small_mock 2"
  by (simp_all add: mock_stops_def page_slice_def small_mock_def three_users_def)

lemma small_env_run:
  "list_site_users (recording small_env) g server site_id token 2 ((), [])
     = Some (Inr (map record_of three_users),
             ((), [(json_request g server site_id token 2 1, HTTPError 406 (Some []) (Inr [])),
                   (xml_request g server site_id token 2 1,
                      Response 200 [(''Content-Type'', ''application/xml;charset=utf-8'')]
                        (Inr ''xml:1'')),
                   (json_request g server site_id token 2 2,
                      Response 200 [(''Content-Type'', ''application/json;charset=utf-8'')]
                        (Inr ''json:2''))]))"
proof -
  from mock_run_from_start [OF small_env_hyps, of g server site_id token "()" "[]"]
  obtain K where K: "1 \<le> K" "K \<le> length (population small_mock) div page_len small_mock + 1"
      "mock_stops small_mock K"
    and run: "list_site_users (recording small_env) g server site_id token
                (int (page_len small_mock)) ((), [])
              = Some (Inr (map record_of (population small_mock)),
                      ((), [] @ concat (map (mock_block g server site_id token small_mock) [1 ..< Suc K])))"
    by blast
  have "K \<le> 2"
    using K(2) by (simp add: small_mock_def three_users_def)
  with K(1) have "K = 1 \<or> K = 2" by linarith
  with K(3) small_mock_stops(1) have K2: "K = 2" by blast
  have upt: "[1 ..< Suc 2] = [1, 2::nat]"
    by (simp add: upt_rec)
  have b1: "mock_block g server site_id token small_mock 1
              = [(json_request g server site_id token 2 1, HTTPError 406 (Some []) (Inr [])),
                 (xml_request g server site_id token 2 1,
                    Response 200 [(''Content-Type'', ''application/xml;charset=utf-8'')]
                      (Inr ''xml:1''))]"
    unfolding mock_block_def json_response_def xml_response_def small_texts
    by (simp add: small_mock_def)
  have b2: "mock_block g server site_id token small_mock 2
              = [(json_request g server site_id token 2 2,
                    Response 200 [(''Content-Type'', ''application/json;charset=utf-8'')]
                      (Inr ''json:2''))]"
    unfolding mock_block_def json_response_def small_texts
    by (simp add: small_mock_def)
  have pl: "int (page_len small_mock) = 2" "population small_mock = three_users"
    by (simp_all add: small_mock_def)
  show ?thesis
    using run b1 b2 unfolding K2 upt pl by simp
qed

text \<open>The mock server of 2500 users.\<close>

lemma big_texts:
  "json_text big_mock 1 = ''json:1''" "json_text big_mock 2 = ''json:2''"
  "json_text big_mock 3 = ''json:3''"
  "xml_text big_mock 1 = ''xml:1''" "xml_text big_mock 2 = ''xml:2''"
  "xml_text big_mock 3 = ''xml:3''"
  by (simp_all add: big_mock_def str_nat.simps digits10_def)

lemma big_env_decodes: "decodes big_env big_mock"
proof -
  have len: "length (population big_mock) div page_len big_mock + 2 = 4"
    by (simp add: big_mock_def)
  have pages: "set [1 ..< 4] = {1, 2, 3::nat}"
    by auto
  have j1: "json_loads big_env (json_text big_mock 1) = Inr (json_payload big_mock 1)"
    by (simp only: big_texts) (simp add: big_env_def)
  have j2: "json_loads big_env (json_text big_mock 2) = Inr (json_payload big_mock 2)"
    by (simp only: big_texts) (simp add: big_env_def)
  have j3: "json_loads big_env (json_text big_mock 3) = Inr (json_payload big_mock 3)"
    by (simp only: big_texts) (simp add: big_env_def)
  have x1: "fromstring big_env (xml_text big_mock 1) = Inr (xml_payload big_mock 1)"
    by (simp only: big_texts) (simp add: big_env_def)
  have x2: "fromstring big_env (xml_text big_mock 2) = Inr (xml_payload big_mock 2)"
    by (simp only: big_texts) (simp add: big_env_def)
  have x3: "fromstring big_env (xml_text big_mock 3) = Inr (xml_payload big_mock 3)"
    by (simp only: big_texts) (simp add: big_env_def)
  have "\<forall>p \<in> {1, 2, 3::nat}.
          json_loads big_env (json_text big_mock p) = Inr (json_payload big_mock p) \<and>
          fromstring big_env (xml_text big_mock p) = Inr (xml_payload big_mock p)"
    using j1 j2 j3 x1 x2 x3 by simp
  then show ?thesis
    unfolding decodes_def len pages .
qed







text \<open>What the writer of delimited text writes for records that are dictionaries.\<close>

lemma sequence_exn_Inr:
  "sequence_exn (map (\<lambda>k. Inr (f k)) ks) = Inr (map f ks)"
  by (induction ks) simp_all

lemma row_dict_JObj:
  "row_dict (JObj kvs)
     = Inr (zip fieldnames (map (\<lambda>k. case map_of kvs k of None \<Rightarrow> JStr [] | Some v \<Rightarrow> v) fieldnames))"
  by (simp add: row_dict_def py_get_def sequence_exn_Inr)

lemma dict_to_list_zip:
  "dict_to_list (zip fieldnames (map f fieldnames)) = map f fieldnames"
  by (simp add: dict_to_list_def fieldnames_def)

lemma writerow_row_dict:
  "row_dict (JObj kvs) = Inr rowdict \<Longrightarrow>
   writerow env rowdict
     = writerow_text (map (\<lambda>k. cell_text env (case map_of kvs k of None \<Rightarrow> JStr [] | Some v \<Rightarrow> v))
                        fieldnames)"
  by (auto simp add: row_dict_JObj writerow_def dict_to_list_zip o_def)

lemma writeheader_text:
  "writeheader env = writerow_text fieldnames"
proof -
  have "map (cell_text env) (map JStr fieldnames) = fieldnames"
    by (simp add: cell_text_def str_of_def map_idI)
  then show ?thesis
    by (simp add: writeheader_def writerow_def dict_to_list_zip)
qed

lemma write_rows_dicts:
  "write_rows env (map JObj dicts) buf
     = Inr (buf @ concat (map (\<lambda>kvs. writerow_text
              (map (\<lambda>k. cell_text env (case map_of kvs k of None \<Rightarrow> JStr [] | Some v \<Rightarrow> v))
                 fieldnames)) dicts))"
proof (induction dicts arbitrary: buf)
  case Nil
  show ?case by simp
next
  case (Cons kvs dicts)
  obtain rowdict where r: "row_dict (JObj kvs) = Inr rowdict"
    by (simp add: row_dict_JObj)
  show ?case
    using Cons.IH writerow_row_dict [OF r, of env] r by simp
qed

lemma csv_text_dicts:
  "csv_text env (map JObj dicts)
     = Inr (concat (map writerow_text
              (fieldnames # map (\<lambda>kvs. map (\<lambda>k. cell_text env
                  (case map_of kvs k of None \<Rightarrow> JStr [] | Some v \<Rightarrow> v)) fieldnames) dicts)))"
  by (simp add: csv_text_def write_rows_dicts writeheader_text o_def)


text \<open>The example deployment.\<close>

lemma flaky_load_config:
  "load_config (flaky_env good) vault initial_globals = (Inr flaky_config, initial_globals)"
  by (simp add: load_config_def environ_item_def vault_def get_secret_json_def flaky_env_def
      py_get_def py_item_def initial_globals_def str_of_def to_bool_def flaky_config_def)

lemma flaky_signin:
  "signin (flaky_env good) initial_globals ''host'' ''name'' ''secret'' [] 0
     = (Inr (''tok'', ''site''), 1)"
  by (simp add: signin_def http_request_def flaky_env_def reply_of_def header_get_def str_eval
      signin_reply_def find_below_def find_child_def attrib_item_def NS_t_def)

lemma flaky_json_page:
  "json_page (flaky_env good) 1000 page ''page'' = Inr (two_users, 2500 \<le> page * 1000)"
proof -
  have t: "py_int (JStr ''2500'') = Inr 2500"
    by (simp add: py_int_def int_of_str_def strip_def isspace_def isdigit10_def
        nat_of_digits_def digit_val_def int_max_str_digits_def)
  have ne: "two_users \<noteq> []"
    by (simp add: two_users_def)
  show ?thesis
    using t ne
    by (simp add: json_page_def flaky_env_def partial_page_def page_batch_def page_total_def
        py_get_def py_iter_def)
qed

lemma flaky_page_good:
  assumes "0 < n" and "n < good"
  shows "list_site_users_page (flaky_env good) g server site_id token 1000 page n
           = (Inr (two_users, 2500 \<le> page * 1000), n + 1)"
proof -
  have u: "urlopen (flaky_env good) (json_request g server site_id token 1000 page) n
             = (Response 200 [(''Content-Type'', ''application/json'')] (Inr ''page''), n + 1)"
    using assms by (simp add: flaky_env_def)
  have r: "reply_of (Response 200 [(''Content-Type'', ''application/json'')] (Inr ''page''))
             = Inr (200, ''application/json'', ''page'')"
    by (simp add: reply_of_def header_get_def str_eval)
  have ok: "json_ok (200, ''application/json'', ''page'')"
    by (simp add: json_ok_def str_eval)
  show ?thesis
    using page_structured [OF u r ok] by (simp add: flaky_json_page)
qed

lemma flaky_page_bad:
  assumes "0 < n" and "good \<le> n"
  shows "list_site_users_page (flaky_env good) g server site_id token 1000 page n
           = (Inl (RuntimeError (''/users failed: HTTP 503, Content-Type=text/plain'' @ nl @ ''busy'')),
              n + 2)"
proof -
  have u: "urlopen (flaky_env good) (json_request g server site_id token 1000 page) n
             = (HTTPError 503 (Some [(''Content-Type'', ''text/plain'')]) (Inr ''busy''), n + 1)"
    using assms by (simp add: flaky_env_def)
  have x: "urlopen (flaky_env good) (xml_request g server site_id token 1000 page) (n + 1)
             = (HTTPError 503 (Some [(''Content-Type'', ''text/plain'')]) (Inr ''busy''), n + 2)"
    using assms by (simp add: flaky_env_def)
  have r: "reply_of (HTTPError 503 (Some [(''Content-Type'', ''text/plain'')]) (Inr ''busy''))
             = Inr (503, ''text/plain'', ''busy'')"
    by (simp add: reply_of_def header_get_def str_eval)
  have nj: "\<not> json_ok (503, ''text/plain'', ''busy'')"
    by (simp add: json_ok_def)
  have nx: "\<not> xml_ok (503, ''text/plain'', ''busy'')"
    by (simp add: xml_ok_def)
  have msg: "failure_message ''/users'' (503, ''text/plain'', ''busy'')
               = ''/users failed: HTTP 503, Content-Type=text/plain'' @ nl @ ''busy''"
    by (simp add: failure_message_def str_int_def str_nat.simps digits10_def)
  show ?thesis
    using page_fallback [OF u r nj x] r nx msg by simp
qed

lemma flaky_run_fails:
  "list_site_users (flaky_env 2) g server site_id token 1000 1
     = Some (Inl (RuntimeError (''/users failed: HTTP 503, Content-Type=text/plain'' @ nl @ ''busy'')), 4)"
proof -
  have p1: "list_site_users_page (flaky_env 2) g server site_id token 1000 1 1
              = (Inr (two_users, False), 2)"
    using flaky_page_good [of 1 2 g server site_id token 1] by simp
  have p2: "list_site_users_page (flaky_env 2) g server site_id token 1000 (1 + 1) 2
              = (Inl (RuntimeError (''/users failed: HTTP 503, Content-Type=text/plain'' @ nl @ ''busy'')), 4)"
    using flaky_page_bad [of 2 2 g server site_id token "1 + 1"] by simp
  show ?thesis
    unfolding list_site_users_def
    by (simp only: loop_continue [OF p1] loop_error [OF p2])
qed

lemma flaky_run_succeeds:
  "list_site_users (flaky_env 4) g server site_id token 1000 1
     = Some (Inr (two_users @ two_users @ two_users), 4)"
proof -
  have p1: "list_site_users_page (flaky_env 4) g server site_id token 1000 1 1
              = (Inr (two_users, False), 2)"
    using flaky_page_good [of 1 4 g server site_id token 1] by simp
  have p2: "list_site_users_page (flaky_env 4) g server site_id token 1000 (1 + 1) 2
              = (Inr (two_users, False), 3)"
    using flaky_page_good [of 2 4 g server site_id token "1 + 1"] by simp
  have p3: "list_site_users_page (flaky_env 4) g server site_id token 1000 (1 + 1 + 1) 3
              = (Inr (two_users, True), 4)"
    using flaky_page_good [of 3 4 g server site_id token "1 + 1 + 1"] by simp
  show ?thesis
    unfolding list_site_users_def
    by (simp only: loop_continue [OF p1] loop_continue [OF p2] loop_stop [OF p3] append_Nil
        append_assoc)
qed

lemma flaky_export_succeeds:
  "\<exists>body. csv_text (flaky_env 4) (two_users @ two_users @ two_users) = Inr body
     \<and> lambda_handler (flaky_env 4) vault \<lparr>net = 0, store = [], glob = initial_globals\<rparr>
         = Some (Inr \<lparr>ret_status = ''ok'', ret_count = 6, ret_bucket = JStr ''bucket'',
                      ret_key = ''tableau/tableau_server_users.csv'', ret_api_version = ''3.19''\<rparr>,
                 \<lparr>net = 4,
                  store = [\<lparr>Bucket = JStr ''bucket'', Key = ''tableau/tableau_server_users.csv'',
                            Body = body, ContentType = ''text/csv; charset=utf-8''\<rparr>],
                  glob = initial_globals\<rparr>)"
proof -
  have "\<exists>dicts. two_users @ two_users @ two_users = map JObj dicts"
    unfolding two_users_def
    by (rule exI [of _ "[[(''id'', JStr ''u1''), (''name'', JStr ''ann'')],
      [(''id'', JStr ''u2''), (''name'', JStr ''bob''), (''email'', JStr ''bob@example.org'')],
      [(''id'', JStr ''u1''), (''name'', JStr ''ann'')],
      [(''id'', JStr ''u2''), (''name'', JStr ''bob''), (''email'', JStr ''bob@example.org'')],
      [(''id'', JStr ''u1''), (''name'', JStr ''ann'')],
      [(''id'', JStr ''u2''), (''name'', JStr ''bob''), (''email'', JStr ''bob@example.org'')]]"])
      simp
  then obtain dicts where d: "two_users @ two_users @ two_users = map JObj dicts"
    by blast
  obtain body where b: "csv_text (flaky_env 4) (two_users @ two_users @ two_users) = Inr body"
    unfolding d by (simp add: csv_text_dicts)
  have len: "length (two_users @ two_users @ two_users) = 6"
    by (simp add: two_users_def)
  have v: "API_VERSION initial_globals = ''3.19''"
    by (simp add: initial_globals_def)
  have w: "write_csv_to_s3 (flaky_env 4) vault (two_users @ two_users @ two_users)
             (JStr ''bucket'') []
           = (Inr ''tableau/tableau_server_users.csv'',
              [\<lparr>Bucket = JStr ''bucket'', Key = ''tableau/tableau_server_users.csv'',
                Body = body, ContentType = ''text/csv; charset=utf-8''\<rparr>])"
    using b by (simp add: write_csv_to_s3_def HARD_CODED_PREFIX_def vault_def Let_def)
  have "lambda_handler (flaky_env 4) vault \<lparr>net = 0, store = [], glob = initial_globals\<rparr>
         = Some (Inr \<lparr>ret_status = ''ok'', ret_count = 6, ret_bucket = JStr ''bucket'',
                      ret_key = ''tableau/tableau_server_users.csv'', ret_api_version = ''3.19''\<rparr>,
                 \<lparr>net = 4,
                  store = [\<lparr>Bucket = JStr ''bucket'', Key = ''tableau/tableau_server_users.csv'',
                            Body = body, ContentType = ''text/csv; charset=utf-8''\<rparr>],
                  glob = initial_globals\<rparr>)"
    using len v w flaky_run_succeeds [of initial_globals "''host''" "''site''" "''tok''"]
    by (simp add: lambda_handler_def flaky_load_config flaky_config_def str_of_def flaky_signin)
  with b show ?thesis by blast
qed





section \<open>No record is dropped or reordered\<close>



section \<open>A structured page without a total\<close>

text \<open>
  Claim C10. When a structured page (status 200, JSON content type) decodes to an object
  that has no \<^verbatim>\<open>pagination\<close> member, or whose \<^verbatim>\<open>pagination\<close> object has no
  \<^verbatim>\<open>totalAvailable\<close>, the total is the length of the batch of that page; so when the batch is
  no longer than the page size (and the page number is at least 1, as it always is), the
  loop returns after that page with the batch appended, having made that one request only.
\<close>

theorem missing_total_stops_after_page:
  assumes j: "urlopen env (json_request g server site_id token page_size page) n = (r1, n1)"
    and r1: "reply_of r1 = Inr (st, ct, tx)"
    and ok: "json_ok (st, ct, tx)"
    and d: "json_loads env tx = Inr (JObj kvs)"
    and nometa: "map_of kvs ''pagination'' = None
           \<or> (\<exists>pg. map_of kvs ''pagination'' = Some (JObj pg) \<and> map_of pg ''totalAvailable'' = None)"
    and b: "page_batch (JObj kvs) = Inr batch"
    and le: "int (length batch) \<le> page_size"
    and pg: "1 \<le> page"
  shows "page_total (JObj kvs) batch = Inr (int (length batch))
       \<and> list_site_users_loop (recording env) g server site_id token page_size users page (n, tr)
           = Some (Inr (users @ batch),
                   (n1, tr @ [(json_request g server site_id token page_size page, r1)]))"
proof -
  have t: "page_total (JObj kvs) batch = Inr (int (length batch))"
    by (rule page_total_default [OF nometa])
  have "page_size \<le> page * page_size"
    using le pg by (simp add: mult_le_cancel_right1) 
  then have stop: "int (length batch) \<le> page * page_size"
    using le by linarith
  have "json_page (recording env) page_size page tx = Inr (batch, True)"
    using d b t stop by (simp add: json_page_def)
  then have "list_site_users_page (recording env) g server site_id token page_size page (n, tr)
               = (Inr (batch, True), (n1, tr @ [(json_request g server site_id token page_size page, r1)]))"
    using page_structured [OF urlopen_recording [OF j] r1 ok] by simp
  then show ?thesis
    using t by (simp add: loop_stop)
qed

theorem missing_total_stops_after_page_witness:
  "list_site_users (recording bare_env) initial_globals ''host'' ''site'' ''tok'' 1000 ((), [])
     = Some (Inr two_users,
             ((), [(json_request initial_globals ''host'' ''site'' ''tok'' 1000 1,
                    Response 200 [(''Content-Type'', ''application/json;charset=utf-8'')] (Inr ''page''))]))"
proof -
  have j: "urlopen bare_env (json_request initial_globals ''host'' ''site'' ''tok'' 1000 1) ()
             = (Response 200 [(''Content-Type'', ''application/json;charset=utf-8'')] (Inr ''page''), ())"
    by (simp add: bare_env_def)
  have r1: "reply_of (Response 200 [(''Content-Type'', ''application/json;charset=utf-8'')] (Inr ''page''))
             = Inr (200, ''application/json;charset=utf-8'', ''page'')"
    by (simp add: reply_of_def header_get_def)
  have ok: "json_ok (200, ''application/json;charset=utf-8'', ''page'')"
    by (simp add: json_ok_def str_eval)
  have d: "json_loads bare_env ''page''
             = Inr (JObj [(''users'', JObj [(''user'', JArr two_users)])])"
    by (simp add: bare_env_def bare_page_def)
  have nometa: "map_of [(''users'', JObj [(''user'', JArr two_users)])] ''pagination'' = None
        \<or> (\<exists>pg. map_of [(''users'', JObj [(''user'', JArr two_users)])] ''pagination'' = Some (JObj pg)
                 \<and> map_of pg ''totalAvailable'' = None)"
    by simp
  have b: "page_batch (JObj [(''users'', JObj [(''user'', JArr two_users)])]) = Inr two_users"
    by (simp add: page_batch_def py_get_def py_iter_def)
  have le: "int (length two_users) \<le> 1000"
    by (simp add: two_users_def)
  show ?thesis
    using missing_total_stops_after_page [OF j r1 ok d nometa b le, of "[]" "[]"]
    by (simp add: list_site_users_def)
qed

section \<open>The sign-in body\<close>




section \<open>The loop ends\<close>



section \<open>The markup fallback\<close>

text \<open>
  Claim C4. When the structured request for a page is answered by anything other than
  status 200 with a content type starting \<^verbatim>\<open>application/json\<close>, the same URL (same page
  number) is requested again with \<^verbatim>\<open>Accept: application/xml\<close>, and these are the two requests
  made for that page; if the answer to the second is not status 200 with \<^verbatim>\<open>xml\<close> in its
  content type, the run ends in the \<^verbatim>\<open>RuntimeError\<close> whose message carries the status, the
  content type and the first 400 characters of the body of the second answer.
\<close>

theorem markup_fallback_on_same_page:
  assumes j: "urlopen env (json_request g server site_id token page_size page) n = (r1, n1)"
    and r1: "reply_of r1 = Inr rp"
    and nj: "\<not> json_ok rp"
    and x: "urlopen env (xml_request g server site_id token page_size page) n1 = (r2, n2)"
  shows "snd (list_site_users_page (recording env) g server site_id token page_size page (n, tr))
           = (n2, tr @ [(json_request g server site_id token page_size page, r1),
                        (xml_request g server site_id token page_size page, r2)])
       \<and> (\<forall>rp2. reply_of r2 = Inr rp2 \<and> \<not> xml_ok rp2 \<longrightarrow>
            list_site_users_loop (recording env) g server site_id token page_size users page (n, tr)
              = Some (Inl (RuntimeError (failure_message ''/users'' rp2)),
                      (n2, tr @ [(json_request g server site_id token page_size page, r1),
                                 (xml_request g server site_id token page_size page, r2)])))"
proof -
  let ?tr1 = "tr @ [(json_request g server site_id token page_size page, r1)]"
  let ?tr2 = "?tr1 @ [(xml_request g server site_id token page_size page, r2)]"
  have step: "list_site_users_page (recording env) g server site_id token page_size page (n, tr)
           = (case reply_of r2 of
                Inl e \<Rightarrow> Inl e
              | Inr rp2 \<Rightarrow>
                  if xml_ok rp2 then xml_page (recording env) page_size (snd (snd rp2))
                  else Inl (RuntimeError (failure_message ''/users'' rp2)),
              (n2, ?tr2))"
    by (rule page_fallback [OF urlopen_recording [OF j] r1 nj urlopen_recording [OF x]])
  show ?thesis
  proof (intro conjI allI impI)
    show "snd (list_site_users_page (recording env) g server site_id token page_size page (n, tr))
            = (n2, tr @ [(json_request g server site_id token page_size page, r1),
                         (xml_request g server site_id token page_size page, r2)])"
      by (simp add: step)
  next
    fix rp2
    assume "reply_of r2 = Inr rp2 \<and> \<not> xml_ok rp2"
    then have "list_site_users_page (recording env) g server site_id token page_size page (n, tr)
                 = (Inl (RuntimeError (failure_message ''/users'' rp2)), (n2, ?tr2))"
      by (simp add: step)
    then show "list_site_users_loop (recording env) g server site_id token page_size users page (n, tr)
              = Some (Inl (RuntimeError (failure_message ''/users'' rp2)),
                      (n2, tr @ [(json_request g server site_id token page_size page, r1),
                                 (xml_request g server site_id token page_size page, r2)]))"
      by (simp add: loop_error)
  qed
qed

theorem markup_fallback_on_same_page_witness:
  "list_site_users (recording failing_env) initial_globals ''host'' ''site'' ''tok'' 1000 ((), [])
     = Some (Inl (RuntimeError (''/users failed: HTTP 503, Content-Type=text/plain'' @ nl @ ''busy'')),
             ((), [(json_request initial_globals ''host'' ''site'' ''tok'' 1000 1,
                      HTTPError 406 (Some [(''content-type'', ''text/html'')]) (Inr ''not acceptable'')),
                   (xml_request initial_globals ''host'' ''site'' ''tok'' 1000 1,
                      HTTPError 503 (Some [(''Content-Type'', ''text/plain'')]) (Inr ''busy''))]))"
proof -
  have j: "urlopen failing_env (json_request initial_globals ''host'' ''site'' ''tok'' 1000 1) ()
             = (HTTPError 406 (Some [(''content-type'', ''text/html'')]) (Inr ''not acceptable''), ())"
    by (simp add: failing_env_def req_eval)
  have r1: "reply_of (HTTPError 406 (Some [(''content-type'', ''text/html'')]) (Inr ''not acceptable''))
             = Inr (406, ''text/html'', ''not acceptable'')"
    by (simp add: reply_of_def header_get_def str_eval)
  have nj: "\<not> json_ok (406, ''text/html'', ''not acceptable'')"
    by (simp add: json_ok_def)
  have x: "urlopen failing_env (xml_request initial_globals ''host'' ''site'' ''tok'' 1000 1) ()
             = (HTTPError 503 (Some [(''Content-Type'', ''text/plain'')]) (Inr ''busy''), ())"
    by (simp add: failing_env_def req_eval)
  have r2: "reply_of (HTTPError 503 (Some [(''Content-Type'', ''text/plain'')]) (Inr ''busy''))
             = Inr (503, ''text/plain'', ''busy'')"
    by (simp add: reply_of_def header_get_def str_eval)
  have nx: "\<not> xml_ok (503, ''text/plain'', ''busy'')"
    by (simp add: xml_ok_def)
  have msg: "failure_message ''/users'' (503, ''text/plain'', ''busy'')
               = ''/users failed: HTTP 503, Content-Type=text/plain'' @ nl @ ''busy''"
    by (simp add: failure_message_def str_int_def str_nat.simps digits10_def)
  show ?thesis
    using markup_fallback_on_same_page [OF j r1 nj x, of "[]" "[]"] r2 nx
    by (simp add: list_site_users_def msg)
qed

section \<open>2500 users in pages of 1000\<close>

text \<open>
  Claim C5. Against a mock server of 2500 users that serves the pages 1, 2 and 3 in the
  structured format with page size 1000 and reports the total 2500, \<^verbatim>\<open>list_site_users\<close>
  makes exactly three requests, the structured ones for the pages 1, 2 and 3 in this
  order, and returns 2500 records; the batches hold 1000, 1000 and 500 of them.
\<close>

theorem three_pages_for_2500:
  fixes env :: "'n env"
  assumes u: "urlopen env = mock_urlopen m"
    and d: "decodes env m"
    and t: "py_int (total_field m) = Inr 2500"
    and len: "length (population m) = 2500"
    and pl: "page_len m = 1000"
    and js: "\<not> markup_only m 1" "\<not> markup_only m 2" "\<not> markup_only m 3"
  shows "list_site_users (recording env) g server site_id token 1000 (n, [])
           = Some (Inr (map record_of (population m)),
                   (n, [(json_request g server site_id token 1000 1, json_response m 1),
                        (json_request g server site_id token 1000 2, json_response m 2),
                        (json_request g server site_id token 1000 3, json_response m 3)]))
       \<and> length (map record_of (population m)) = 2500
       \<and> map (\<lambda>p. length (page_slice m p)) [1, 2, 3] = [1000, 1000, 500]"
proof (intro conjI)
  have t': "py_int (total_field m) = Inr (int (length (population m)))"
    using t len by simp
  have l: "0 < page_len m"
    using pl by simp
  from mock_run_from_start [OF u d t' l, of g server site_id token n "[]"]
  obtain K where K: "1 \<le> K" "K \<le> length (population m) div page_len m + 1"
      "mock_stops m K"
    and run: "list_site_users (recording env) g server site_id token (int (page_len m)) (n, [])
              = Some (Inr (map record_of (population m)),
                      (n, [] @ concat (map (mock_block g server site_id token m) [1 ..< Suc K])))"
    by blast
  have s1: "\<not> mock_stops m 1"
    using js(1) len pl by (auto simp add: mock_stops_def page_slice_def)
  have s2: "\<not> mock_stops m 2"
    using js(2) len pl by (auto simp add: mock_stops_def page_slice_def)
  have "K \<le> 3"
    using K(2) len pl by simp
  with K(1) have "K = 1 \<or> K = 2 \<or> K = 3" by linarith
  with K(3) s1 s2 have K3: "K = 3" by blast
  have upt: "[1 ..< Suc 3] = [1, 2, 3::nat]"
    by (simp add: upt_rec)
  have b: "mock_block g server site_id token m 1
             = [(json_request g server site_id token 1000 1, json_response m 1)]"
      "mock_block g server site_id token m 2
             = [(json_request g server site_id token 1000 2, json_response m 2)]"
      "mock_block g server site_id token m 3
             = [(json_request g server site_id token 1000 3, json_response m 3)]"
    using js pl by (simp_all add: mock_block_def)
  have p: "int (page_len m) = 1000"
    using pl by simp
  show "list_site_users (recording env) g server site_id token 1000 (n, [])
           = Some (Inr (map record_of (population m)),
                   (n, [(json_request g server site_id token 1000 1, json_response m 1),
                        (json_request g server site_id token 1000 2, json_response m 2),
                        (json_request g server site_id token 1000 3, json_response m 3)]))"
    using run b unfolding K3 upt p by simp
next
  show "length (map record_of (population m)) = 2500"
    using len by simp
next
  show "map (\<lambda>p. length (page_slice m p)) [1, 2, 3] = [1000, 1000, 500]"
    using len pl by (simp add: page_slice_def)
qed

theorem three_pages_for_2500_witness:
  "list_site_users (recording big_env) initial_globals ''host'' ''site'' ''tok'' 1000 ((), [])
     = Some (Inr (map record_of (population big_mock)),
             ((), [(json_request initial_globals ''host'' ''site'' ''tok'' 1000 1, json_response big_mock 1),
                   (json_request initial_globals ''host'' ''site'' ''tok'' 1000 2, json_response big_mock 2),
                   (json_request initial_globals ''host'' ''site'' ''tok'' 1000 3, json_response big_mock 3)]))
   \<and> length (map record_of (population big_mock)) = 2500
   \<and> map (\<lambda>p. length (page_slice big_mock p)) [1, 2, 3] = [1000, 1000, 500]"
proof -
  have u: "urlopen big_env = mock_urlopen big_mock"
    by (simp add: big_env_def)
  have t: "py_int (total_field big_mock) = Inr 2500"
    by (simp add: big_mock_def py_int_def)
  have len: "length (population big_mock) = 2500"
    by (simp add: big_mock_def)
  have pl: "page_len big_mock = 1000"
    by (simp add: big_mock_def)
  have js: "\<not> markup_only big_mock 1" "\<not> markup_only big_mock 2" "\<not> markup_only big_mock 3"
    by (simp_all add: big_mock_def)
  from three_pages_for_2500 [OF u big_env_decodes t len pl js]
  show ?thesis .
qed

section \<open>The format is not pinned\<close>

text \<open>
  Claim C6. Whatever the server does, the requests of one pass through the loop body
  for a page begin with the structured request for that page; and the trace of a run that
  returns is one in which every page, also each page after one served in markup, is first
  asked for in the structured format, the markup request for a page coming only right
  after a structured reply for that same page that failed the test.
\<close>

theorem structured_format_first_on_every_page:
  fixes env :: "'n env"
  shows "(\<forall>page n tr. \<exists>block.
            snd (snd (list_site_users_page (recording env) g server site_id token page_size page
                        (n, tr))) = tr @ block
          \<and> block \<noteq> []
          \<and> structured_first g server site_id token page_size page block)
       \<and> (\<forall>n res n' tr.
            list_site_users (recording env) g server site_id token page_size (n, [])
              = Some (res, (n', tr))
            \<longrightarrow> structured_first g server site_id token page_size 1 tr)"
proof (intro conjI allI impI)
  fix page n tr
  obtain res n' tr' where step:
    "list_site_users_page (recording env) g server site_id token page_size page (n, tr)
       = (res, (n', tr'))"
    by (cases "list_site_users_page (recording env) g server site_id token page_size page (n, tr)")
       auto
  from page_recording [OF step] step
  show "\<exists>block.
          snd (snd (list_site_users_page (recording env) g server site_id token page_size page
                      (n, tr))) = tr @ block
        \<and> block \<noteq> []
        \<and> structured_first g server site_id token page_size page block"
    by auto
next
  fix n res n' tr
  assume "list_site_users (recording env) g server site_id token page_size (n, [])
            = Some (res, (n', tr))"
  then have "list_site_users_loop (recording env) g server site_id token page_size [] 1 (n, [])
               = Some (res, (n', tr))"
    by (simp add: list_site_users_def)
  from loop_recording_trace [OF this, of env]
  show "structured_first g server site_id token page_size 1 tr"
    by simp
qed

theorem structured_format_first_on_every_page_witness:
  "structured_first initial_globals ''host'' ''site'' ''tok'' 2 1
     [(json_request initial_globals ''host'' ''site'' ''tok'' 2 1, HTTPError 406 (Some []) (Inr [])),
      (xml_request initial_globals ''host'' ''site'' ''tok'' 2 1,
         Response 200 [(''Content-Type'', ''application/xml;charset=utf-8'')] (Inr ''xml:1'')),
      (json_request initial_globals ''host'' ''site'' ''tok'' 2 2,
         Response 200 [(''Content-Type'', ''application/json;charset=utf-8'')] (Inr ''json:2''))]"
  using structured_format_first_on_every_page [of small_env initial_globals "''host''" "''site''"
      "''tok''" 2]
    small_env_run [of initial_globals "''host''" "''site''" "''tok''"]
  by blast

section \<open>The rows of the CSV text\<close>



section \<open>All or nothing\<close>

text \<open>
  Claim C8. Once the configuration is loaded, an exception raised by \<^verbatim>\<open>signin\<close> or by
  \<^verbatim>\<open>list_site_users\<close> (on whichever page) is what \<^verbatim>\<open>lambda_handler\<close> raises, and the
  storage is then as it was before the run. Conversely, whenever a run of the handler
  leaves the storage changed, sign-in succeeded, \<^verbatim>\<open>list_site_users\<close> returned the full list,
  and the change is that of the one \<^verbatim>\<open>put_object\<close> call, made with the CSV text of that
  list.
\<close>

theorem export_all_or_nothing:
  fixes env :: "'n env" and cloud :: "'s aws"
  assumes cfg: "load_config env cloud (glob w) = (Inr cfg, g)"
  shows "(\<forall>e n1.
            signin env g (str_of env (cfg_server cfg)) (str_of env (cfg_pat_name cfg))
              (str_of env (cfg_pat_secret cfg)) (str_of env (cfg_site_slug cfg)) (net w)
              = (Inl e, n1)
            \<longrightarrow> lambda_handler env cloud w = Some (Inl e, w\<lparr>net := n1, glob := g\<rparr>)
              \<and> store (w\<lparr>net := n1, glob := g\<rparr>) = store w)
       \<and> (\<forall>token site_id n1 e n2.
            signin env g (str_of env (cfg_server cfg)) (str_of env (cfg_pat_name cfg))
              (str_of env (cfg_pat_secret cfg)) (str_of env (cfg_site_slug cfg)) (net w)
              = (Inr (token, site_id), n1)
            \<and> list_site_users env g (str_of env (cfg_server cfg)) site_id token 1000 n1
              = Some (Inl e, n2)
            \<longrightarrow> lambda_handler env cloud w = Some (Inl e, w\<lparr>net := n2, glob := g\<rparr>)
              \<and> store (w\<lparr>net := n2, glob := g\<rparr>) = store w)
       \<and> (\<forall>res w'.
            lambda_handler env cloud w = Some (res, w') \<and> store w' \<noteq> store w
            \<longrightarrow> (\<exists>token site_id n1 users n2 body r.
                   signin env g (str_of env (cfg_server cfg)) (str_of env (cfg_pat_name cfg))
                     (str_of env (cfg_pat_secret cfg)) (str_of env (cfg_site_slug cfg)) (net w)
                     = (Inr (token, site_id), n1)
                 \<and> list_site_users env g (str_of env (cfg_server cfg)) site_id token 1000 n1
                     = Some (Inr users, n2)
                 \<and> csv_text env users = Inr body
                 \<and> put_object cloud
                     \<lparr>Bucket = cfg_bucket cfg,
                      Key = HARD_CODED_PREFIX @ ''/tableau_server_users.csv'',
                      Body = body, ContentType = ''text/csv; charset=utf-8''\<rparr> (store w)
                     = (r, store w')))"
proof (intro conjI allI impI)
  fix e n1
  assume "signin env g (str_of env (cfg_server cfg)) (str_of env (cfg_pat_name cfg))
              (str_of env (cfg_pat_secret cfg)) (str_of env (cfg_site_slug cfg)) (net w)
              = (Inl e, n1)"
  then show "lambda_handler env cloud w = Some (Inl e, w\<lparr>net := n1, glob := g\<rparr>)"
    using cfg by (simp add: lambda_handler_def)
next
  fix e n1
  show "store (w\<lparr>net := n1, glob := g\<rparr>) = store w"
    by simp
next
  fix token site_id n1 e n2
  assume "signin env g (str_of env (cfg_server cfg)) (str_of env (cfg_pat_name cfg))
              (str_of env (cfg_pat_secret cfg)) (str_of env (cfg_site_slug cfg)) (net w)
              = (Inr (token, site_id), n1)
            \<and> list_site_users env g (str_of env (cfg_server cfg)) site_id token 1000 n1
              = Some (Inl e, n2)"
  then show "lambda_handler env cloud w = Some (Inl e, w\<lparr>net := n2, glob := g\<rparr>)"
    using cfg by (simp add: lambda_handler_def)
next
  fix n2
  show "store (w\<lparr>net := n2, glob := g\<rparr>) = store w"
    by simp
next
  fix res w'
  assume a: "lambda_handler env cloud w = Some (res, w') \<and> store w' \<noteq> store w"
  obtain r1 n1 where s: "signin env g (str_of env (cfg_server cfg)) (str_of env (cfg_pat_name cfg))
              (str_of env (cfg_pat_secret cfg)) (str_of env (cfg_site_slug cfg)) (net w) = (r1, n1)"
    by (cases "signin env g (str_of env (cfg_server cfg)) (str_of env (cfg_pat_name cfg))
              (str_of env (cfg_pat_secret cfg)) (str_of env (cfg_site_slug cfg)) (net w)") auto
  show "\<exists>token site_id n1 users n2 body r.
                   signin env g (str_of env (cfg_server cfg)) (str_of env (cfg_pat_name cfg))
                     (str_of env (cfg_pat_secret cfg)) (str_of env (cfg_site_slug cfg)) (net w)
                     = (Inr (token, site_id), n1)
                 \<and> list_site_users env g (str_of env (cfg_server cfg)) site_id token 1000 n1
                     = Some (Inr users, n2)
                 \<and> csv_text env users = Inr body
                 \<and> put_object cloud
                     \<lparr>Bucket = cfg_bucket cfg,
                      Key = HARD_CODED_PREFIX @ ''/tableau_server_users.csv'',
                      Body = body, ContentType = ''text/csv; charset=utf-8''\<rparr> (store w)
                     = (r, store w')"
  proof (cases r1)
    case (Inl e)
    with a s cfg show ?thesis
      by (auto simp add: lambda_handler_def)
  next
    case (Inr ts)
    obtain token site_id where ts: "ts = (token, site_id)"
      by (cases ts) auto
    show ?thesis
    proof (cases "list_site_users env g (str_of env (cfg_server cfg)) site_id token 1000 n1")
      case None
      with a s cfg Inr ts show ?thesis
        by (simp add: lambda_handler_def)
    next
      case (Some y)
      obtain r2 n2 where y: "y = (r2, n2)"
        by (cases y) auto
      show ?thesis
      proof (cases r2)
        case (Inl e)
        with a s cfg Inr ts Some y show ?thesis
          by (auto simp add: lambda_handler_def)
      next
        case users: (Inr users)
        show ?thesis
        proof (cases "csv_text env users")
          case (Inl e)
          with a s cfg Inr ts Some y users show ?thesis
            by (auto simp add: lambda_handler_def write_csv_to_s3_def)
        next
          case body: (Inr body)
          obtain r s' where p: "put_object cloud
                     \<lparr>Bucket = cfg_bucket cfg,
                      Key = HARD_CODED_PREFIX @ ''/tableau_server_users.csv'',
                      Body = body, ContentType = ''text/csv; charset=utf-8''\<rparr> (store w) = (r, s')"
            by (cases "put_object cloud
                     \<lparr>Bucket = cfg_bucket cfg,
                      Key = HARD_CODED_PREFIX @ ''/tableau_server_users.csv'',
                      Body = body, ContentType = ''text/csv; charset=utf-8''\<rparr> (store w)") auto
          have "store w' = s'"
            using a s cfg Inr ts Some y users body p
            by (cases r) (auto simp add: lambda_handler_def write_csv_to_s3_def Let_def)
          with s Inr ts Some y users body p show ?thesis
            by auto
        qed
      qed
    qed
  qed
qed

theorem export_all_or_nothing_witness:
  "lambda_handler (flaky_env 2) vault \<lparr>net = 0, store = [], glob = initial_globals\<rparr>
     = Some (Inl (RuntimeError (''/users failed: HTTP 503, Content-Type=text/plain'' @ nl @ ''busy'')),
             \<lparr>net = 4, store = [], glob = initial_globals\<rparr>)
   \<and> (\<exists>body. csv_text (flaky_env 4) (two_users @ two_users @ two_users) = Inr body
     \<and> lambda_handler (flaky_env 4) vault \<lparr>net = 0, store = [], glob = initial_globals\<rparr>
         = Some (Inr \<lparr>ret_status = ''ok'', ret_count = 6, ret_bucket = JStr ''bucket'',
                      ret_key = ''tableau/tableau_server_users.csv'', ret_api_version = ''3.19''\<rparr>,
                 \<lparr>net = 4,
                  store = [\<lparr>Bucket = JStr ''bucket'', Key = ''tableau/tableau_server_users.csv'',
                            Body = body, ContentType = ''text/csv; charset=utf-8''\<rparr>],
                  glob = initial_globals\<rparr>))"
proof -
  have c: "load_config (flaky_env 2) vault
             (glob \<lparr>net = 0::nat, store = [] :: put_args list, glob = initial_globals\<rparr>)
             = (Inr flaky_config, initial_globals)"
    by (simp add: flaky_load_config)
  have s: "signin (flaky_env 2) initial_globals (str_of (flaky_env 2) (cfg_server flaky_config))
             (str_of (flaky_env 2) (cfg_pat_name flaky_config))
             (str_of (flaky_env 2) (cfg_pat_secret flaky_config))
             (str_of (flaky_env 2) (cfg_site_slug flaky_config))
             (net \<lparr>net = 0::nat, store = [] :: put_args list, glob = initial_globals\<rparr>)
             = (Inr (''tok'', ''site''), 1)"
    by (simp add: flaky_config_def str_of_def flaky_signin)
  have l: "list_site_users (flaky_env 2) initial_globals
             (str_of (flaky_env 2) (cfg_server flaky_config)) ''site'' ''tok'' 1000 1
             = Some (Inl (RuntimeError (''/users failed: HTTP 503, Content-Type=text/plain'' @ nl @ ''busy'')), 4)"
    by (simp only: flaky_run_fails)
  from export_all_or_nothing [OF c] s l
  have "lambda_handler (flaky_env 2) vault \<lparr>net = 0, store = [], glob = initial_globals\<rparr>
          = Some (Inl (RuntimeError (''/users failed: HTTP 503, Content-Type=text/plain'' @ nl @ ''busy'')),
                  \<lparr>net = 0, store = [], glob = initial_globals\<rparr>\<lparr>net := 4, glob := initial_globals\<rparr>)"
    by blast
  then have "lambda_handler (flaky_env 2) vault \<lparr>net = 0, store = [], glob = initial_globals\<rparr>
          = Some (Inl (RuntimeError (''/users failed: HTTP 503, Content-Type=text/plain'' @ nl @ ''busy'')),
                  \<lparr>net = 4, store = [], glob = initial_globals\<rparr>)"
    by simp
  with flaky_export_succeeds show ?thesis
    by (rule conjI [rotated])
qed

section \<open>Transport: error statuses are replies\<close>

text \<open>
  Claim C9. When \<^verbatim>\<open>urlopen\<close> raises \<^verbatim>\<open>HTTPError\<close> for an error status and the body can be
  read, \<^verbatim>\<open>_http_request\<close> returns the triple of status code, content type and body text,
  of the same shape as for a response that was returned; it raises exactly when
  \<^verbatim>\<open>urlopen\<close> raised something else or reading the body raised.
\<close>

theorem http_request_error_status:
  assumes "urlopen env (make_request g meth u hdrs body) n = (res, n')"
  shows "(\<forall>code hs text. res = HTTPError code hs (Inr text) \<longrightarrow>
            http_request env g meth u hdrs body n
              = (Inr (code, (case hs of None \<Rightarrow> [] | Some h \<Rightarrow> header_get h ''Content-Type'' []),
                      text), n'))
       \<and> (\<forall>st hs text. res = Response st hs (Inr text) \<longrightarrow>
            http_request env g meth u hdrs body n
              = (Inr (st, header_get hs ''Content-Type'' [], text), n'))
       \<and> (\<forall>e. fst (http_request env g meth u hdrs body n) = Inl e \<longleftrightarrow>
            res = Failed e \<or> (\<exists>st hs. res = Response st hs (Inl e))
              \<or> (\<exists>code hs. res = HTTPError code hs (Inl e)))"
  using assms
  by (auto simp add: http_request_def reply_of_def split: urlopen_result.splits sum.splits)

theorem http_request_error_status_witness:
  "http_request failing_env initial_globals ''GET'' ''https://h/x'' (xml_headers ''t'') None ()
     = (Inr (503, ''text/plain'', ''busy''), ())"
proof -
  have h: "urlopen failing_env
             (make_request initial_globals ''GET'' ''https://h/x'' (xml_headers ''t'') None) ()
           = (HTTPError 503 (Some [(''Content-Type'', ''text/plain'')]) (Inr ''busy''), ())"
    by (simp add: failing_env_def make_request_def xml_headers_def accept_of_def)
  show ?thesis
    using http_request_error_status [OF h]
    by (simp add: header_get_def str_eval)
qed

end
